theory Spec2Isabelle
  imports Complex_Main "HOL-Library.Log_Nat"
begin

section \<open>JavaScript numbers\<close>

text \<open>
  The server computes with JavaScript Numbers, that is IEEE 754 binary64 values. A finite
  Number is modelled by the rational it denotes; every arithmetic operation computes the
  exact rational result and rounds it to the nearest binary64 value, ties to the even
  significand (\<open>rnd\<close>). The two zeros are identified: none of the operations used by the
  server (\<open>+\<close>, \<open>-\<close>, \<open>*\<close>, division by the literal 100, \<open>||\<close>, \<open>toFixed\<close>,
  \<open>Math.floor\<close>) distinguishes them.
\<close>

text \<open>\<open>ilog2 x\<close> is the binary exponent of a positive rational: \<open>2^k \<le> x < 2^(k+1)\<close>.\<close>

definition ilog2 :: "rat \<Rightarrow> int" where
  "ilog2 x = (case quotient_of x of (p, q) \<Rightarrow>
     (let k = bitlen p - bitlen q in if 2 powi k \<le> x then k else k - 1))"

text \<open>Rounding to the nearest integer, a tie going to the even neighbour.\<close>

definition round_even :: "rat \<Rightarrow> int" where
  "round_even q = (let f = \<lfloor>q\<rfloor>; d = q - of_int f in
     if d < 1/2 then f else if 1/2 < d then f + 1 else if even f then f else f + 1)"

text \<open>
  The exponent of the unit in the last place of the binary64 values around \<open>x\<close>:
  53 significant bits, and the subnormal spacing \<open>2^-1074\<close> at the bottom.
\<close>

definition ulp_exp :: "rat \<Rightarrow> int" where
  "ulp_exp x = max (ilog2 \<bar>x\<bar> - 52) (- 1074)"

definition rnd :: "rat \<Rightarrow> rat" where
  "rnd x = (if x = 0 then 0 else of_int (round_even (x / 2 powi ulp_exp x)) * 2 powi ulp_exp x)"

text \<open>Arithmetic on finite Numbers whose result stays finite.\<close>

definition fadd :: "rat \<Rightarrow> rat \<Rightarrow> rat" where
  "fadd a b = rnd (a + b)"

definition fmul :: "rat \<Rightarrow> rat \<Rightarrow> rat" where
  "fmul a b = rnd (a * b)"


text \<open>A Number in general: finite, an infinity, or NaN.\<close>

datatype number = Fin rat | PInf | NInf | NaN









section \<open>Strings of digits\<close>

definition digit_char :: "nat \<Rightarrow> char" where
  "digit_char d = ''0123456789'' ! d"

fun nat_to_string :: "nat \<Rightarrow> string" where
  "nat_to_string n =
     (if n < 10 then [digit_char n] else nat_to_string (n div 10) @ [digit_char (n mod 10)])"

declare nat_to_string.simps [simp del]

text \<open>\<open>String(n)\<close> for an integral Number below \<open>10^21\<close>.\<close>

definition int_to_string :: "int \<Rightarrow> string" where
  "int_to_string n = (if n < 0 then ''-'' @ nat_to_string (nat (- n)) else nat_to_string (nat n))"


definition is_digit :: "char \<Rightarrow> bool" where
  "is_digit c = (c \<in> set ''0123456789'')"











section \<open>Table access codes\<close>

text \<open>
  \<open>generateOtp\<close> is \<open>String(Math.floor(1000 + Math.random() * 9000))\<close>. The argument
  \<open>r\<close> is the value that \<open>Math.random()\<close> returned: a Number with \<open>0 \<le> r < 1\<close>.
\<close>

definition generateOtp :: "rat \<Rightarrow> string" where
  "generateOtp r = int_to_string \<lfloor>fadd 1000 (fmul r 9000)\<rfloor>"

definition is_random :: "rat \<Rightarrow> bool" where
  "is_random r = (0 \<le> r \<and> r < 1 \<and> rnd r = r)"

section \<open>Data model\<close>

text \<open>
  The rows of the relational tables of \<open>shared/schema.ts\<close>. A table of the database is the
  list of its rows in storage order. Timestamps are milliseconds; identifiers, session ids
  and the status columns are text, as in the schema.
\<close>

record table_row =
  t_id :: string
  t_adminUid :: string
  t_tableNumber :: int
  t_status :: string
  t_activeSessionId :: "string option"
  t_otp :: string
  t_createdAt :: int
  t_updatedAt :: int

record orderItem =
  oi_menuItemId :: string
  oi_name :: string
  oi_price :: string
  oi_quantity :: number
  oi_status :: string

record order_row =
  o_id :: string
  o_adminUid :: string
  o_sessionId :: string
  o_tableNumber :: int
  o_items :: "orderItem list"
  o_orderStatus :: string
  o_createdAt :: int
  o_updatedAt :: int

record billItem =
  bi_menuItemId :: string
  bi_name :: string
  bi_price :: string
  bi_quantity :: number

record bill_row =
  b_id :: string
  b_billNumber :: string
  b_adminUid :: string
  b_sessionId :: string
  b_tableNumber :: int
  b_items :: "billItem list"
  b_subtotal :: string
  b_discountPercentage :: string
  b_discountAmount :: string
  b_serviceChargePercentage :: string
  b_serviceChargeAmount :: string
  b_totalAmount :: string
  b_paymentMode :: "string option"
  b_generatedAt :: int
  b_isFinal :: bool

record salesItem =
  si_name :: string
  si_quantity :: number
  si_price :: string

record sales_row =
  s_id :: string
  s_adminUid :: string
  s_billId :: string
  s_tableNumber :: int
  s_totalAmount :: string
  s_itemsSold :: "salesItem list"
  s_createdAt :: int

record database =
  tables :: "table_row list"
  orders :: "order_row list"
  bills :: "bill_row list"
  salesHistory :: "sales_row list"

text \<open>
  The failures a route handler answers with, by HTTP status. A failure of the database
  itself, which the handlers turn into status 500, is outside the model.
\<close>

datatype http_error =
    BadRequest      \<comment> \<open>400\<close>
  | Unauthorized    \<comment> \<open>401\<close>
  | Forbidden       \<comment> \<open>403\<close>
  | NotFound        \<comment> \<open>404\<close>

section \<open>Storage: tables\<close>

text \<open>
  Every operation that the source runs against the database takes the database and
  returns the new one. What the source draws from outside is an argument: the identifier
  \<open>gen_random_uuid()\<close> gives a new row, the value of \<open>Math.random()\<close>, and the reading
  \<open>now\<close> of the clock (one reading for each request).
\<close>

definition getTablesByAdminUid :: "string \<Rightarrow> database \<Rightarrow> table_row list" where
  "getTablesByAdminUid adminUid db = filter (\<lambda>t. t_adminUid t = adminUid) (tables db)"

definition getTable :: "string \<Rightarrow> database \<Rightarrow> table_row option" where
  "getTable i db = find (\<lambda>t. t_id t = i) (tables db)"

definition getTableByNumber :: "string \<Rightarrow> int \<Rightarrow> database \<Rightarrow> table_row option" where
  "getTableByNumber adminUid tableNumber db =
     find (\<lambda>t. t_adminUid t = adminUid \<and> t_tableNumber t = tableNumber) (tables db)"

text \<open>
  \<open>InsertTable\<close>: \<open>status\<close> and \<open>otp\<close> have column defaults, \<open>activeSessionId\<close> is
  nullable.
\<close>

record insertTable =
  it_adminUid :: string
  it_tableNumber :: int
  it_status :: "string option"
  it_activeSessionId :: "string option"
  it_otp :: "string option"

definition createTable :: "string \<Rightarrow> int \<Rightarrow> insertTable \<Rightarrow> database \<Rightarrow> table_row \<times> database" where
  "createTable newId now data db =
     (let row = \<lparr> t_id = newId, t_adminUid = it_adminUid data,
                   t_tableNumber = it_tableNumber data,
                   t_status = (case it_status data of None \<Rightarrow> ''vacant'' | Some s \<Rightarrow> s),
                   t_activeSessionId = it_activeSessionId data,
                   t_otp = (case it_otp data of None \<Rightarrow> ''0000'' | Some c \<Rightarrow> c),
                   t_createdAt = now, t_updatedAt = now \<rparr>
      in (row, db\<lparr>tables := tables db @ [row]\<rparr>))"

text \<open>
  \<open>Partial<InsertTable>\<close> as the callers of \<open>updateTable\<close> build it: an absent field
  is \<open>None\<close>; \<open>activeSessionId\<close> may be present with the value null.
\<close>

record tablePatch =
  tp_status :: "string option"
  tp_activeSessionId :: "string option option"

definition patchTable :: "tablePatch \<Rightarrow> int \<Rightarrow> table_row \<Rightarrow> table_row" where
  "patchTable data now t =
     t\<lparr> t_status := (case tp_status data of None \<Rightarrow> t_status t | Some s \<Rightarrow> s),
        t_activeSessionId :=
          (case tp_activeSessionId data of None \<Rightarrow> t_activeSessionId t | Some a \<Rightarrow> a),
        t_updatedAt := now \<rparr>"

text \<open>
  \<open>update ... where id = i returning\<close>: every row with that id is rewritten, and the
  first rewritten row is handed back.
\<close>

definition updateTableRows :: "string \<Rightarrow> (table_row \<Rightarrow> table_row) \<Rightarrow> database \<Rightarrow> table_row option \<times> database" where
  "updateTableRows i f db =
     (let ts = map (\<lambda>t. if t_id t = i then f t else t) (tables db)
      in (find (\<lambda>t. t_id t = i) ts, db\<lparr>tables := ts\<rparr>))"

definition updateTable :: "string \<Rightarrow> tablePatch \<Rightarrow> int \<Rightarrow> database \<Rightarrow> table_row option \<times> database" where
  "updateTable i data now db = updateTableRows i (patchTable data now) db"

definition resetTable :: "string \<Rightarrow> rat \<Rightarrow> int \<Rightarrow> database \<Rightarrow> table_row option \<times> database" where
  "resetTable i r now db =
     (let newOtp = generateOtp r
      in updateTableRows i
           (\<lambda>t. t\<lparr> t_status := ''vacant'', t_activeSessionId := None, t_otp := newOtp,
                    t_updatedAt := now \<rparr>) db)"

definition regenerateTableOtp :: "string \<Rightarrow> rat \<Rightarrow> int \<Rightarrow> database \<Rightarrow> table_row option \<times> database" where
  "regenerateTableOtp i r now db =
     (let newOtp = generateOtp r
      in updateTableRows i (\<lambda>t. t\<lparr> t_otp := newOtp, t_updatedAt := now \<rparr>) db)"

text \<open>
  \<open>initializeTables\<close>: the loop \<open>for (let i = 1; i <= count; i++)\<close> over the numbers not
  present when the operation started. \<open>uuid i\<close> and \<open>rand i\<close> are the identifier and the
  random value drawn in iteration \<open>i\<close>.
\<close>

definition createMissingTables ::
  "string \<Rightarrow> int \<Rightarrow> (int \<Rightarrow> string) \<Rightarrow> (int \<Rightarrow> rat) \<Rightarrow> int \<Rightarrow> table_row list \<Rightarrow> database \<Rightarrow> database" where
  "createMissingTables adminUid count uuid rand now existingTables db =
     (let existingNumbers = set (map t_tableNumber existingTables)
      in foldl (\<lambda>d i.
           if i \<in> existingNumbers then d
           else
             let otp = generateOtp (rand i)
             in snd (createTable (uuid i) now
                  \<lparr> it_adminUid = adminUid, it_tableNumber = i, it_status = Some ''vacant'',
                    it_activeSessionId = None, it_otp = Some otp \<rparr> d))
         db [1..count])"

definition initializeTables ::
  "string \<Rightarrow> int \<Rightarrow> (int \<Rightarrow> string) \<Rightarrow> (int \<Rightarrow> rat) \<Rightarrow> int \<Rightarrow> database \<Rightarrow> database" where
  "initializeTables adminUid count uuid rand now db =
     createMissingTables adminUid count uuid rand now (getTablesByAdminUid adminUid db) db"

text \<open>\<open>syncTables\<close>: the same loop, then the rows numbered above \<open>newCount\<close> are deleted.\<close>

definition syncTables ::
  "string \<Rightarrow> int \<Rightarrow> (int \<Rightarrow> string) \<Rightarrow> (int \<Rightarrow> rat) \<Rightarrow> int \<Rightarrow> database \<Rightarrow> database" where
  "syncTables adminUid newCount uuid rand now db =
     (let existingTables = getTablesByAdminUid adminUid db;
          db1 = createMissingTables adminUid newCount uuid rand now existingTables db
      in foldl (\<lambda>d table.
           if t_tableNumber table > newCount
           then d\<lparr>tables := filter (\<lambda>t. t_id t \<noteq> t_id table) (tables d)\<rparr>
           else d)
         db1 existingTables)"

section \<open>Storage: orders, bills and sales history\<close>

text \<open>\<open>orderBy(desc(createdAt))\<close>.\<close>

definition orderByDesc :: "('a \<Rightarrow> int) \<Rightarrow> 'a list \<Rightarrow> 'a list" where
  "orderByDesc key rows = rev (sort_key key rows)"

definition getOrdersBySessionId :: "string \<Rightarrow> database \<Rightarrow> order_row list" where
  "getOrdersBySessionId sessionId db =
     orderByDesc o_createdAt (filter (\<lambda>x. o_sessionId x = sessionId) (orders db))"

definition getActiveOrdersByTableNumber :: "string \<Rightarrow> int \<Rightarrow> database \<Rightarrow> order_row list" where
  "getActiveOrdersByTableNumber adminUid tableNumber db =
     orderByDesc o_createdAt
       (filter (\<lambda>x. o_adminUid x = adminUid \<and> o_tableNumber x = tableNumber
                    \<and> o_orderStatus x = ''active'') (orders db))"

text \<open>\<open>InsertOrder\<close>: \<open>orderStatus\<close> has the column default \<open>active\<close>.\<close>

record insertOrder =
  io_adminUid :: string
  io_sessionId :: string
  io_tableNumber :: int
  io_items :: "orderItem list"
  io_orderStatus :: "string option"

definition createOrder :: "string \<Rightarrow> int \<Rightarrow> insertOrder \<Rightarrow> database \<Rightarrow> order_row \<times> database" where
  "createOrder newId now data db =
     (let row = \<lparr> o_id = newId, o_adminUid = io_adminUid data, o_sessionId = io_sessionId data,
                   o_tableNumber = io_tableNumber data, o_items = io_items data,
                   o_orderStatus = (case io_orderStatus data of None \<Rightarrow> ''active'' | Some s \<Rightarrow> s),
                   o_createdAt = now, o_updatedAt = now \<rparr>
      in (row, db\<lparr>orders := orders db @ [row]\<rparr>))"

text \<open>\<open>Partial<InsertOrder>\<close> as the callers of \<open>updateOrder\<close> build it.\<close>

record orderPatch =
  op_items :: "orderItem list option"
  op_orderStatus :: "string option"

definition patchOrder :: "orderPatch \<Rightarrow> int \<Rightarrow> order_row \<Rightarrow> order_row" where
  "patchOrder data now x =
     x\<lparr> o_items := (case op_items data of None \<Rightarrow> o_items x | Some xs \<Rightarrow> xs),
        o_orderStatus := (case op_orderStatus data of None \<Rightarrow> o_orderStatus x | Some s \<Rightarrow> s),
        o_updatedAt := now \<rparr>"

definition updateOrder :: "string \<Rightarrow> orderPatch \<Rightarrow> int \<Rightarrow> database \<Rightarrow> order_row option \<times> database" where
  "updateOrder i data now db =
     (let os = map (\<lambda>x. if o_id x = i then patchOrder data now x else x) (orders db)
      in (find (\<lambda>x. o_id x = i) os, db\<lparr>orders := os\<rparr>))"

definition getBill :: "string \<Rightarrow> database \<Rightarrow> bill_row option" where
  "getBill i db = find (\<lambda>b. b_id b = i) (bills db)"


text \<open>\<open>updateBill(id, { isFinal })\<close>, the one way the source calls \<open>updateBill\<close>.\<close>

definition updateBill :: "string \<Rightarrow> bool \<Rightarrow> database \<Rightarrow> bill_row option \<times> database" where
  "updateBill i isFinal db =
     (let bs = map (\<lambda>b. if b_id b = i then b\<lparr>b_isFinal := isFinal\<rparr> else b) (bills db)
      in (find (\<lambda>b. b_id b = i) bs, db\<lparr>bills := bs\<rparr>))"

record insertSalesHistory =
  is_adminUid :: string
  is_billId :: string
  is_tableNumber :: int
  is_totalAmount :: string
  is_itemsSold :: "salesItem list"

definition createSalesHistory :: "string \<Rightarrow> int \<Rightarrow> insertSalesHistory \<Rightarrow> database \<Rightarrow> sales_row \<times> database" where
  "createSalesHistory newId now data db =
     (let record = \<lparr> s_id = newId, s_adminUid = is_adminUid data, s_billId = is_billId data,
                      s_tableNumber = is_tableNumber data, s_totalAmount = is_totalAmount data,
                      s_itemsSold = is_itemsSold data, s_createdAt = now \<rparr>
      in (record, db\<lparr>salesHistory := salesHistory db @ [record]\<rparr>))"

text \<open>The sales history records that were written for one bill.\<close>

definition salesHistoryOfBill :: "string \<Rightarrow> database \<Rightarrow> sales_row list" where
  "salesHistoryOfBill billId db = filter (\<lambda>s. s_billId s = billId) (salesHistory db)"

text \<open>
  \<open>cancelTable\<close>: the orders of the table that are \<open>active\<close> are cancelled one by one,
  then the table is reset with a new code.
\<close>

definition cancelTable :: "string \<Rightarrow> rat \<Rightarrow> int \<Rightarrow> database \<Rightarrow> table_row option \<times> database" where
  "cancelTable i r now db =
     (case getTable i db of
        None \<Rightarrow> (None, db)
      | Some table \<Rightarrow>
          let activeOrders = getActiveOrdersByTableNumber (t_adminUid table) (t_tableNumber table) db;
              db1 = foldl (\<lambda>d order.
                      snd (updateOrder (o_id order)
                             \<lparr> op_items = None, op_orderStatus = Some ''cancelled'' \<rparr> now d))
                    db activeOrders;
              newOtp = generateOtp r
          in updateTableRows i
               (\<lambda>t. t\<lparr> t_status := ''vacant'', t_activeSessionId := None, t_otp := newOtp,
                        t_updatedAt := now \<rparr>) db1)"

section \<open>Route handlers\<close>

text \<open>
  A handler takes the request and the database and returns its answer with the new
  database. For a protected route \<open>caller\<close> is the tenant that \<open>authMiddleware\<close> read
  from the bearer token; a request that the middleware turns away never reaches the handler.
\<close>

text \<open>\<open>POST /api/tables/:id/reset\<close>\<close>

definition post_tables_reset ::
  "string \<Rightarrow> string \<Rightarrow> rat \<Rightarrow> int \<Rightarrow> database \<Rightarrow> (http_error + table_row option) \<times> database" where
  "post_tables_reset caller i r now db =
     (case getTable i db of
        None \<Rightarrow> (Inl NotFound, db)
      | Some existingTable \<Rightarrow>
          if t_adminUid existingTable \<noteq> caller then (Inl Forbidden, db)
          else (case resetTable i r now db of (table, db') \<Rightarrow> (Inr table, db')))"

text \<open>\<open>POST /api/tables/:id/cancel\<close>\<close>

definition post_tables_cancel ::
  "string \<Rightarrow> string \<Rightarrow> rat \<Rightarrow> int \<Rightarrow> database \<Rightarrow> (http_error + table_row option) \<times> database" where
  "post_tables_cancel caller i r now db =
     (case getTable i db of
        None \<Rightarrow> (Inl NotFound, db)
      | Some existingTable \<Rightarrow>
          if t_adminUid existingTable \<noteq> caller then (Inl Forbidden, db)
          else if t_status existingTable = ''vacant'' then (Inl BadRequest, db)
          else (case cancelTable i r now db of (table, db') \<Rightarrow> (Inr table, db')))"

text \<open>\<open>POST /api/tables/:id/regenerate-otp\<close>\<close>

definition post_tables_regenerate_otp ::
  "string \<Rightarrow> string \<Rightarrow> rat \<Rightarrow> int \<Rightarrow> database \<Rightarrow> (http_error + table_row option) \<times> database" where
  "post_tables_regenerate_otp caller i r now db =
     (case getTable i db of
        None \<Rightarrow> (Inl NotFound, db)
      | Some existingTable \<Rightarrow>
          if t_adminUid existingTable \<noteq> caller then (Inl Forbidden, db)
          else (case regenerateTableOtp i r now db of (table, db') \<Rightarrow> (Inr table, db')))"

text \<open>
  \<open>POST /api/tables/join\<close>. The body's fields are tested for truthiness first: an empty
  string and the number zero count as missing. \<open>suffix\<close> is the random fragment
  \<open>Math.random().toString(36).substr(2, 9)\<close> of a new session id.
\<close>

record joinBody =
  jb_adminUid :: string
  jb_tableNumber :: int
  jb_otp :: string

record joinReply =
  jr_sessionId :: string
  jr_isExistingSession :: bool
  jr_tableNumber :: int

text \<open>The truthiness of a nullable string: null and the empty string are falsy.\<close>

fun truthy :: "string option \<Rightarrow> bool" where
  "truthy None = False"
| "truthy (Some s) = (s \<noteq> [])"

definition post_tables_join ::
  "joinBody \<Rightarrow> string \<Rightarrow> int \<Rightarrow> database \<Rightarrow> (http_error + joinReply) \<times> database" where
  "post_tables_join body suffix now db =
     (if jb_adminUid body = [] \<or> jb_tableNumber body = 0 \<or> jb_otp body = []
      then (Inl BadRequest, db)
      else
        case getTableByNumber (jb_adminUid body) (jb_tableNumber body) db of
          None \<Rightarrow> (Inl NotFound, db)
        | Some table \<Rightarrow>
            if t_otp table \<noteq> jb_otp body then (Inl Unauthorized, db)
            else if t_status table = ''active'' \<and> truthy (t_activeSessionId table)
            then (Inr \<lparr> jr_sessionId = the (t_activeSessionId table),
                        jr_isExistingSession = True,
                        jr_tableNumber = t_tableNumber table \<rparr>, db)
            else
              let newSessionId = ''session-'' @ int_to_string now @ ''-'' @ suffix
              in (Inr \<lparr> jr_sessionId = newSessionId, jr_isExistingSession = False,
                         jr_tableNumber = t_tableNumber table \<rparr>,
                  snd (updateTable (t_id table)
                         \<lparr> tp_status = Some ''active'',
                           tp_activeSessionId = Some (Some newSessionId) \<rparr> now db)))"

text \<open>
  \<open>POST /api/orders\<close>. \<open>insertOrderSchema\<close> is derived from the columns of \<open>orders\<close>:
  \<open>adminUid\<close>, \<open>sessionId\<close>, \<open>tableNumber\<close> and \<open>items\<close> are required, \<open>orderStatus\<close>
  is optional text, and the derived schema puts no condition on the content of the JSON
  column \<open>items\<close>. A field that is absent or of the wrong type is \<open>None\<close> in the body.
\<close>

record orderBody =
  ob_adminUid :: "string option"
  ob_sessionId :: "string option"
  ob_tableNumber :: "int option"
  ob_items :: "orderItem list option"
  ob_orderStatus :: "string option"

definition insertOrderSchema_parse :: "orderBody \<Rightarrow> insertOrder option" where
  "insertOrderSchema_parse body =
     (case (ob_adminUid body, ob_sessionId body, ob_tableNumber body, ob_items body) of
        (Some a, Some s, Some n, Some xs) \<Rightarrow>
          Some \<lparr> io_adminUid = a, io_sessionId = s, io_tableNumber = n, io_items = xs,
                 io_orderStatus = ob_orderStatus body \<rparr>
      | _ \<Rightarrow> None)"

definition post_orders ::
  "orderBody \<Rightarrow> string \<Rightarrow> int \<Rightarrow> database \<Rightarrow> (http_error + order_row) \<times> database" where
  "post_orders body newId now db =
     (case insertOrderSchema_parse body of
        None \<Rightarrow> (Inl BadRequest, db)
      | Some data \<Rightarrow>
          (case createOrder newId now data db of
             (order, db1) \<Rightarrow>
               (case getTableByNumber (io_adminUid data) (io_tableNumber data) db1 of
                  None \<Rightarrow> (Inr order, db1)
                | Some table \<Rightarrow>
                    (Inr order,
                     snd (updateTable (t_id table)
                            \<lparr> tp_status = Some ''active'',
                              tp_activeSessionId = Some (Some (io_sessionId data)) \<rparr> now db1)))))"








text \<open>
  \<open>POST /api/bills/:id/finalize\<close>, and the four writes it makes one after the other.
\<close>

definition markFinal :: "bill_row \<Rightarrow> database \<Rightarrow> database" where
  "markFinal bill db = snd (updateBill (b_id bill) True db)"

definition archiveSale :: "bill_row \<Rightarrow> string \<Rightarrow> int \<Rightarrow> database \<Rightarrow> database" where
  "archiveSale bill newId now db =
     snd (createSalesHistory newId now
            \<lparr> is_adminUid = b_adminUid bill, is_billId = b_id bill,
              is_tableNumber = b_tableNumber bill, is_totalAmount = b_totalAmount bill,
              is_itemsSold = map (\<lambda>item. \<lparr> si_name = bi_name item,
                                            si_quantity = bi_quantity item,
                                            si_price = bi_price item \<rparr>) (b_items bill) \<rparr> db)"

definition completeSessionOrders :: "bill_row \<Rightarrow> int \<Rightarrow> database \<Rightarrow> database" where
  "completeSessionOrders bill now db =
     (let sessionOrders = getOrdersBySessionId (b_sessionId bill) db
      in foldl (\<lambda>d order.
           snd (updateOrder (o_id order)
                  \<lparr> op_items = None, op_orderStatus = Some ''completed'' \<rparr> now d))
         db sessionOrders)"

definition resetBillTable :: "bill_row \<Rightarrow> rat \<Rightarrow> int \<Rightarrow> database \<Rightarrow> database" where
  "resetBillTable bill r now db =
     (case getTableByNumber (b_adminUid bill) (b_tableNumber bill) db of
        None \<Rightarrow> db
      | Some table \<Rightarrow> snd (resetTable (t_id table) r now db))"

definition post_bills_finalize ::
  "string \<Rightarrow> string \<Rightarrow> string \<Rightarrow> rat \<Rightarrow> int \<Rightarrow> database \<Rightarrow> (http_error + bill_row) \<times> database" where
  "post_bills_finalize caller i newId r now db =
     (case getBill i db of
        None \<Rightarrow> (Inl NotFound, db)
      | Some bill \<Rightarrow>
          if caller \<noteq> b_adminUid bill then (Inl Forbidden, db)
          else
            let db1 = markFinal bill db;
                db2 = archiveSale bill newId now db1;
                db3 = completeSessionOrders bill now db2;
                db4 = resetBillTable bill r now db3
            in (Inr bill, db4))"

section \<open>The table registry and the session binder as a transition system\<close>

text \<open>
  The states that the table registry (initialize, sync, reset, cancel, regenerate) and the
  session-creating requests (join, order placement) reach from a database without tables,
  whatever arguments they are called with.
\<close>

inductive reachable :: "database \<Rightarrow> bool" where
  no_tables: "tables db = [] \<Longrightarrow> reachable db"
| initialize: "reachable db \<Longrightarrow> reachable (initializeTables adminUid count uuid rand now db)"
| sync: "reachable db \<Longrightarrow> reachable (syncTables adminUid newCount uuid rand now db)"
| reset: "reachable db \<Longrightarrow> reachable (snd (resetTable i r now db))"
| cancel: "reachable db \<Longrightarrow> reachable (snd (cancelTable i r now db))"
| regenerateCode: "reachable db \<Longrightarrow> reachable (snd (regenerateTableOtp i r now db))"
| join: "reachable db \<Longrightarrow> reachable (snd (post_tables_join body suffix now db))"
| place: "reachable db \<Longrightarrow> reachable (snd (post_orders obody newId now db))"

text \<open>The occupancy invariant of a table row.\<close>

definition vacant_iff_no_session :: "table_row \<Rightarrow> bool" where
  "vacant_iff_no_session t = ((t_status t = ''vacant'') = (t_activeSessionId t = None))"

section \<open>Sample data\<close>

text \<open>A tenant \<open>demo\<close> whose table 3 is occupied.\<close>

definition table3 :: table_row where
  "table3 = \<lparr> t_id = ''t3'', t_adminUid = ''demo'', t_tableNumber = 3, t_status = ''active'',
              t_activeSessionId = Some ''session-1-abc'', t_otp = ''4821'',
              t_createdAt = 0, t_updatedAt = 1 \<rparr>"

definition db_table3 :: database where
  "db_table3 = \<lparr> tables = [table3], orders = [], bills = [], salesHistory = [] \<rparr>"

text \<open>A tenant with one table, first vacant, then joined by a customer.\<close>

definition db_empty :: database where
  "db_empty = \<lparr> tables = [], orders = [], bills = [], salesHistory = [] \<rparr>"

definition db_one_table :: database where
  "db_one_table = initializeTables ''demo'' 1 (\<lambda>i. ''t1'') (\<lambda>i. 0) 0 db_empty"

definition db_joined :: database where
  "db_joined = snd (post_tables_join \<lparr> jb_adminUid = ''demo'', jb_tableNumber = 1, jb_otp = ''1000'' \<rparr>
                      ''k3x'' 5 db_one_table)"

definition table1_joined :: table_row where
  "table1_joined = \<lparr> t_id = ''t1'', t_adminUid = ''demo'', t_tableNumber = 1, t_status = ''active'',
                      t_activeSessionId = Some ''session-5-k3x'', t_otp = ''1000'',
                      t_createdAt = 0, t_updatedAt = 5 \<rparr>"

text \<open>
  The same table after an order was placed with the empty string as session id, which
  \<open>insertOrderSchema\<close> accepts.
\<close>

definition db_blank_session :: database where
  "db_blank_session =
     snd (post_orders \<lparr> ob_adminUid = Some ''demo'', ob_sessionId = Some [], ob_tableNumber = Some 1,
                        ob_items = Some [], ob_orderStatus = None \<rparr> ''o1'' 2 db_one_table)"

definition table1_blank :: table_row where
  "table1_blank = \<lparr> t_id = ''t1'', t_adminUid = ''demo'', t_tableNumber = 1, t_status = ''active'',
                     t_activeSessionId = Some [], t_otp = ''1000'',
                     t_createdAt = 0, t_updatedAt = 2 \<rparr>"

text \<open>
  The tenant \<open>demo\<close> in the middle of service: table 3 has an active order of two items
  \<open>A\<close> at 120.00 and a draft bill over 264.00, table 5 has an active order of another
  session, and an order of an earlier visit to table 3 is long completed.
\<close>

definition table5 :: table_row where
  "table5 = \<lparr> t_id = ''t5'', t_adminUid = ''demo'', t_tableNumber = 5, t_status = ''active'',
              t_activeSessionId = Some ''session-2-xyz'', t_otp = ''1000'',
              t_createdAt = 0, t_updatedAt = 2 \<rparr>"

definition item_A :: orderItem where
  "item_A = \<lparr> oi_menuItemId = ''mA'', oi_name = ''A'', oi_price = ''120.00'',
              oi_quantity = Fin 2, oi_status = ''completed'' \<rparr>"

definition order1 :: order_row where
  "order1 = \<lparr> o_id = ''o1'', o_adminUid = ''demo'', o_sessionId = ''session-1-abc'',
              o_tableNumber = 3, o_items = [item_A], o_orderStatus = ''active'',
              o_createdAt = 10, o_updatedAt = 11 \<rparr>"

definition order2 :: order_row where
  "order2 = \<lparr> o_id = ''o2'', o_adminUid = ''demo'', o_sessionId = ''session-2-xyz'',
              o_tableNumber = 5, o_items = [item_A], o_orderStatus = ''active'',
              o_createdAt = 12, o_updatedAt = 12 \<rparr>"

definition order3 :: order_row where
  "order3 = \<lparr> o_id = ''o3'', o_adminUid = ''demo'', o_sessionId = ''session-0-old'',
              o_tableNumber = 3, o_items = [item_A], o_orderStatus = ''completed'',
              o_createdAt = 1, o_updatedAt = 2 \<rparr>"

definition bill1 :: bill_row where
  "bill1 = \<lparr> b_id = ''b1'', b_billNumber = ''BILL-20260101-0001'', b_adminUid = ''demo'',
             b_sessionId = ''session-1-abc'', b_tableNumber = 3,
             b_items = [\<lparr> bi_menuItemId = ''mA'', bi_name = ''A'', bi_price = ''120.00'',
                          bi_quantity = Fin 2 \<rparr>],
             b_subtotal = ''240.00'', b_discountPercentage = ''0.00'', b_discountAmount = ''0.00'',
             b_serviceChargePercentage = ''10.00'', b_serviceChargeAmount = ''24.00'',
             b_totalAmount = ''264.00'', b_paymentMode = Some ''cash'', b_generatedAt = 13,
             b_isFinal = False \<rparr>"

definition sale1 :: sales_row where
  "sale1 = \<lparr> s_id = ''s1'', s_adminUid = ''demo'', s_billId = ''b1'', s_tableNumber = 3,
             s_totalAmount = ''264.00'',
             s_itemsSold = [\<lparr> si_name = ''A'', si_quantity = Fin 2, si_price = ''120.00'' \<rparr>],
             s_createdAt = 20 \<rparr>"

definition db_demo :: database where
  "db_demo = \<lparr> tables = [table3, table5], orders = [order1, order2, order3], bills = [bill1],
               salesHistory = [] \<rparr>"

definition db_finalized :: database where
  "db_finalized = snd (post_bills_finalize ''demo'' ''b1'' ''s1'' 0 20 db_demo)"

text \<open>Two order requests for table 1: one without items, one as the client sends it.\<close>

definition order_empty_items :: orderBody where
  "order_empty_items = \<lparr> ob_adminUid = Some ''demo'', ob_sessionId = Some ''session-5-k3x'',
                          ob_tableNumber = Some 1, ob_items = Some [], ob_orderStatus = None \<rparr>"

definition order_two_A :: orderBody where
  "order_two_A = \<lparr> ob_adminUid = Some ''demo'', ob_sessionId = Some ''session-9-new'',
                    ob_tableNumber = Some 1,
                    ob_items = Some [\<lparr> oi_menuItemId = ''mA'', oi_name = ''A'', oi_price = ''120.00'',
                                       oi_quantity = Fin 2, oi_status = ''pending'' \<rparr>],
                    ob_orderStatus = Some ''active'' \<rparr>"






section \<open>Rounding to binary64\<close>

lemma bitlen_powi_bounds:
  assumes "0 < p"
  shows "(2::rat) powi (bitlen p - 1) \<le> of_int p" and "of_int p < (2::rat) powi bitlen p"
proof -
  from bitlen_bounds[OF assms] have a: "2 ^ nat (bitlen p - 1) \<le> p" and b: "p < 2 ^ nat (bitlen p)"
    by auto
  have ge1: "1 \<le> bitlen p" using assms by (auto simp: bitlen_alt_def)
  have "(of_int (2 ^ nat (bitlen p - 1)) :: rat) \<le> of_int p" using a by (simp only: of_int_le_iff)
  then show "(2::rat) powi (bitlen p - 1) \<le> of_int p" using ge1 by (simp add: power_int_def)
  have "(of_int p :: rat) < of_int (2 ^ nat (bitlen p))" using b by (simp only: of_int_less_iff)
  then show "of_int p < (2::rat) powi bitlen p" using ge1 by (simp add: power_int_def)
qed

lemma ilog2_bounds:
  assumes "0 < x"
  shows "2 powi ilog2 x \<le> x \<and> x < 2 powi (ilog2 x + 1)"
proof -
  obtain p q where pq: "quotient_of x = (p, q)" by (cases "quotient_of x")
  have q: "0 < q" using pq by (rule quotient_of_denom_pos)
  have x: "x = of_int p / of_int q" using pq by (rule quotient_of_div)
  have p: "0 < p" using assms q x by (simp add: zero_less_divide_iff)
  define k where "k = bitlen p - bitlen q"
  note bp = bitlen_powi_bounds[OF p] and bq = bitlen_powi_bounds[OF q]
  have qpos: "(0::rat) < of_int q" using q by simp
  have "x < 2 powi bitlen p / 2 powi (bitlen q - 1)"
    unfolding x using bp(2) bq(1) qpos p
    by (intro frac_less) (auto)
  also have "\<dots> = 2 powi (bitlen p - (bitlen q - 1))" by (subst power_int_diff) auto
  also have "bitlen p - (bitlen q - 1) = k + 1" by (simp add: k_def)
  finally have up: "x < 2 powi (k + 1)" .
  have "2 powi (bitlen p - 1) / 2 powi bitlen q < x"
    unfolding x using bp(1) bq(2) qpos p
    by (intro frac_less2) (auto)
  moreover have "(2::rat) powi (bitlen p - 1) / 2 powi bitlen q = 2 powi (bitlen p - 1 - bitlen q)"
    by (subst power_int_diff) auto
  moreover have "bitlen p - 1 - bitlen q = k - 1" by (simp add: k_def)
  ultimately have lo: "2 powi (k - 1) < x" by simp
  show ?thesis
  proof (cases "2 powi k \<le> x")
    case True
    then have "ilog2 x = k" by (simp add: ilog2_def pq k_def)
    then show ?thesis using True up by simp
  next
    case False
    then have "ilog2 x = k - 1" by (simp add: ilog2_def pq k_def)
    then show ?thesis using False lo by simp
  qed
qed

lemma powi2_less_cancel: "(2::rat) powi a < 2 powi b \<Longrightarrow> a < b"
  using power_int_increasing[of b a "2::rat"] by (cases "a < b") auto

lemma ilog2_unique:
  assumes "2 powi k \<le> x" "x < 2 powi (k + 1)"
  shows "ilog2 x = k"
proof -
  have pos: "0 < x" using assms(1) by (smt (verit) zero_less_power_int zero_less_numeral order_less_le_trans)
  from ilog2_bounds[OF pos] have a: "2 powi ilog2 x \<le> x" and b: "x < 2 powi (ilog2 x + 1)" by auto
  have "(2::rat) powi ilog2 x < 2 powi (k + 1)" using a assms(2) by simp
  then have "ilog2 x < k + 1" by (rule powi2_less_cancel)
  moreover have "(2::rat) powi k < 2 powi (ilog2 x + 1)" using b assms(1) by simp
  then have "k < ilog2 x + 1" by (rule powi2_less_cancel)
  ultimately show ?thesis by simp
qed

lemma ilog2_mono:
  assumes "0 < x" "x \<le> y"
  shows "ilog2 x \<le> ilog2 y"
proof -
  have "2 powi ilog2 x \<le> x" using ilog2_bounds[OF assms(1)] by simp
  moreover have "y < 2 powi (ilog2 y + 1)" using ilog2_bounds[of y] assms by simp
  ultimately have "(2::rat) powi ilog2 x < 2 powi (ilog2 y + 1)" using assms(2) by simp
  then have "ilog2 x < ilog2 y + 1" by (rule powi2_less_cancel)
  then show ?thesis by simp
qed

lemma round_even_of_int: "round_even (of_int n) = n"
  by (simp add: round_even_def)

lemma round_even_mono:
  assumes "x \<le> y"
  shows "round_even x \<le> round_even y"
proof (cases "\<lfloor>x\<rfloor> = \<lfloor>y\<rfloor>")
  case True
  then show ?thesis using assms by (auto simp: round_even_def Let_def)
next
  case False
  then have "\<lfloor>x\<rfloor> + 1 \<le> \<lfloor>y\<rfloor>" using floor_mono[OF assms] by simp
  moreover have "round_even x \<le> \<lfloor>x\<rfloor> + 1" by (simp add: round_even_def Let_def)
  moreover have "\<lfloor>y\<rfloor> \<le> round_even y" by (simp add: round_even_def Let_def)
  ultimately show ?thesis by simp
qed

lemma round_even_le: "x \<le> of_int n \<Longrightarrow> round_even x \<le> n"
  using round_even_mono[of x "of_int n"] by (simp add: round_even_of_int)

lemma round_even_ge: "of_int n \<le> x \<Longrightarrow> n \<le> round_even x"
  using round_even_mono[of "of_int n" x] by (simp add: round_even_of_int)

lemma powi2_pos: "(0::rat) < 2 powi e"
  by (simp add: zero_less_power_int)

lemma rnd_nonneg:
  assumes "0 \<le> x"
  shows "0 \<le> rnd x"
proof -
  have "0 \<le> x / 2 powi ulp_exp x" using assms powi2_pos[of "ulp_exp x"] by simp
  then have "0 \<le> round_even (x / 2 powi ulp_exp x)" using round_even_ge[of 0] by simp
  then show ?thesis using powi2_pos[of "ulp_exp x"] by (simp add: rnd_def)
qed

lemma rnd_exact:
  assumes "\<bar>m\<bar> < 2 ^ 53" "- 1074 \<le> e"
  shows "rnd (of_int m * 2 powi e) = of_int m * 2 powi e"
proof (cases "m = 0")
  case True
  then show ?thesis by (simp add: rnd_def)
next
  case False
  define x :: rat where "x = of_int m * 2 powi e"
  define u where "u = ulp_exp x"
  have ax: "\<bar>x\<bar> = of_int \<bar>m\<bar> * 2 powi e" using powi2_pos[of e] by (simp add: x_def abs_mult)
  have xpos: "0 < \<bar>x\<bar>" using False powi2_pos[of e] by (simp add: x_def)
  have "(of_int \<bar>m\<bar> :: rat) < of_int (2 ^ 53)" using assms(1) by (simp only: of_int_less_iff)
  then have "of_int \<bar>m\<bar> * 2 powi e < (2::rat) ^ 53 * 2 powi e" using powi2_pos[of e] by simp
  also have "\<dots> = 2 powi (53 + e)" by (subst power_int_add) auto
  finally have "2 powi ilog2 \<bar>x\<bar> < (2::rat) powi (53 + e)"
    using ilog2_bounds[OF xpos] ax by simp
  then have "ilog2 \<bar>x\<bar> < 53 + e" by (rule powi2_less_cancel)
  then have le: "u \<le> e" using assms(2) by (simp add: ulp_exp_def u_def)
  define d where "d = nat (e - u)"
  have "e = int d + u" using le by (simp add: d_def)
  then have "(2::rat) powi e = 2 powi (int d + u)" by simp
  also have "\<dots> = 2 ^ d * 2 powi u" by (subst power_int_add) auto
  finally have e: "(2::rat) powi e = 2 ^ d * 2 powi u" .
  have xu: "x = of_int (m * 2 ^ d) * 2 powi u" by (simp add: x_def e)
  have "x / 2 powi u = of_int (m * 2 ^ d)"
    using powi2_pos[of u] by (simp add: xu)
  then have "round_even (x / 2 powi u) = m * 2 ^ d" by (simp only: round_even_of_int)
  moreover have "x \<noteq> 0" using xpos by simp
  ultimately have "rnd x = of_int (m * 2 ^ d) * 2 powi u"
    by (simp add: rnd_def u_def)
  then have "rnd x = x" using xu by simp
  then show ?thesis by (simp add: x_def)
qed

lemma rnd_of_int: "\<bar>m\<bar> < 2 ^ 53 \<Longrightarrow> rnd (of_int m) = of_int m"
  using rnd_exact[of m 0] by simp

lemma rnd_mono:
  assumes "0 \<le> x" "x \<le> y"
  shows "rnd x \<le> rnd y"
proof (cases "x = 0")
  case True
  then show ?thesis using rnd_nonneg[of y] assms by (simp add: rnd_def)
next
  case False
  then have xpos: "0 < x" and ypos: "0 < y" using assms by auto
  have ax: "\<bar>x\<bar> = x" and ay: "\<bar>y\<bar> = y" using xpos ypos by auto
  have L: "ilog2 x \<le> ilog2 y" using ilog2_mono[OF xpos assms(2)] .
  then have E: "ulp_exp x \<le> ulp_exp y" by (simp add: ulp_exp_def ax ay)
  have rx: "rnd x = of_int (round_even (x / 2 powi ulp_exp x)) * 2 powi ulp_exp x"
    using xpos by (simp add: rnd_def)
  have ry: "rnd y = of_int (round_even (y / 2 powi ulp_exp y)) * 2 powi ulp_exp y"
    using ypos by (simp add: rnd_def)
  show ?thesis
  proof (cases "ulp_exp x = ulp_exp y")
    case True
    have "x / 2 powi ulp_exp y \<le> y / 2 powi ulp_exp y"
      using assms(2) powi2_pos[of "ulp_exp y"] by (simp add: divide_right_mono)
    then have "round_even (x / 2 powi ulp_exp y) \<le> round_even (y / 2 powi ulp_exp y)"
      by (rule round_even_mono)
    then show ?thesis using powi2_pos[of "ulp_exp y"] by (simp add: rx ry True)
  next
    case False
    then have lt: "ulp_exp x < ulp_exp y" using E by simp
    then have ey: "ulp_exp y = ilog2 y - 52" by (auto simp: ulp_exp_def ay ax max_def split: if_splits)
    have ex: "ilog2 x - 52 \<le> ulp_exp x" by (simp add: ulp_exp_def ax)
    \<comment> \<open>the larger argument rounds to at least the bottom of its binade\<close>
    have "(2::rat) powi ilog2 y / 2 powi ulp_exp y = 2 powi 52"
      by (simp add: ey power_int_diff)
    moreover have "2 powi ilog2 y / 2 powi ulp_exp y \<le> y / 2 powi ulp_exp y"
      using ilog2_bounds[OF ypos] powi2_pos[of "ulp_exp y"] by (simp add: divide_right_mono)
    ultimately have "of_int (2 ^ 52) \<le> y / 2 powi ulp_exp y" by simp
    then have "2 ^ 52 \<le> round_even (y / 2 powi ulp_exp y)" by (rule round_even_ge)
    then have "(of_int (2 ^ 52) :: rat) \<le> of_int (round_even (y / 2 powi ulp_exp y))"
      by (simp only: of_int_le_iff)
    then have "2 powi 52 * 2 powi ulp_exp y \<le> rnd y"
      using powi2_pos[of "ulp_exp y"] by (simp add: ry)
    then have low: "2 powi (ulp_exp y + 52) \<le> rnd y" by (simp add: power_int_add mult.commute)
    \<comment> \<open>the smaller argument rounds to at most the top of its binade\<close>
    have "x < 2 powi (ilog2 x + 1)" using ilog2_bounds[OF xpos] by simp
    also have "\<dots> \<le> 2 powi (ulp_exp x + 53)" using ex by (intro power_int_increasing) auto
    finally have "x / 2 powi ulp_exp x \<le> 2 powi (ulp_exp x + 53) / 2 powi ulp_exp x"
      using powi2_pos[of "ulp_exp x"] by (simp add: divide_right_mono)
    also have "\<dots> = of_int (2 ^ 53)" by (simp add: power_int_add)
    finally have "round_even (x / 2 powi ulp_exp x) \<le> 2 ^ 53" by (rule round_even_le)
    then have "(of_int (round_even (x / 2 powi ulp_exp x)) :: rat) \<le> of_int (2 ^ 53)"
      by (simp only: of_int_le_iff)
    then have "rnd x \<le> 2 powi 53 * 2 powi ulp_exp x"
      using powi2_pos[of "ulp_exp x"] by (simp add: rx)
    then have "rnd x \<le> 2 powi (ulp_exp x + 53)" by (simp add: power_int_add mult.commute)
    also have "\<dots> \<le> 2 powi (ulp_exp y + 52)" using lt by (intro power_int_increasing) auto
    finally show ?thesis using low by simp
  qed
qed

lemma round_even_down: "0 \<le> f \<Longrightarrow> f < 1 / 2 \<Longrightarrow> round_even (of_int n + f) = n"
proof -
  assume f: "0 \<le> f" "f < 1 / 2"
  then have "\<lfloor>of_int n + f\<rfloor> = n" by (intro floor_unique) simp_all
  then show ?thesis using f by (simp add: round_even_def Let_def)
qed

lemma rnd_below_9000: "rnd ((1 - 1 / 2 ^ 53) * 9000) = 9000 - 1 / 2 ^ 39"
proof -
  define z :: rat where "z = (1 - 1 / 2 ^ 53) * 9000"
  have "ilog2 \<bar>z\<bar> = 13" by (rule ilog2_unique) (simp_all add: z_def)
  then have u: "ulp_exp z = - 39" by (simp add: ulp_exp_def)
  have "z / 2 powi (- 39) = of_int (9000 * 2 ^ 39 - 1) + 923 / 2048" 
    by (simp add: z_def power_int_minus)
  then have "round_even (z / 2 powi (- 39)) = 9000 * 2 ^ 39 - 1"
    by (simp only: round_even_down)
  moreover have "z \<noteq> 0" by (simp add: z_def)
  ultimately have "rnd z = of_int (9000 * 2 ^ 39 - 1) * 2 powi (- 39)"
    by (simp only: rnd_def u if_False)
  also have "\<dots> = 9000 - 1 / 2 ^ 39" by (simp add: power_int_minus)
  finally show ?thesis by (simp only: z_def)
qed

section \<open>Digit strings\<close>

lemma digit_char_cases:
  assumes "d < 10"
  shows "is_digit (digit_char d)" and "d \<noteq> 0 \<Longrightarrow> digit_char d \<noteq> CHR ''0''"
proof -
  from assms have "d \<in> {0, 1, 2, 3, 4, 5, 6, 7, 8, 9}" by auto
  then show "is_digit (digit_char d)"
    by (auto simp: digit_char_def is_digit_def)
  from \<open>d \<in> {0, 1, 2, 3, 4, 5, 6, 7, 8, 9}\<close> show "d \<noteq> 0 \<Longrightarrow> digit_char d \<noteq> CHR ''0''"
    by (auto simp: digit_char_def)
qed

lemma nat_to_string_4:
  assumes "1000 \<le> n" "n \<le> 9999"
  shows "nat_to_string n = [digit_char (n div 1000), digit_char (n div 100 mod 10),
                            digit_char (n div 10 mod 10), digit_char (n mod 10)]"
proof -
  have a: "\<not> n < 10" "\<not> n div 10 < 10" "\<not> n div 10 div 10 < 10" "n div 10 div 10 div 10 < 10"
    using assms by auto
  have b: "n div 10 div 10 div 10 = n div 1000" "n div 10 div 10 = n div 100"
    by (simp_all add: div_mult2_eq[symmetric])
  show ?thesis
    apply (subst nat_to_string.simps, simp only: a if_False)
    apply (subst nat_to_string.simps, simp only: a if_False)
    apply (subst nat_to_string.simps, simp only: a if_False)
    apply (subst nat_to_string.simps, simp only: a if_True)
    apply (simp add: div_mult2_eq[symmetric])
    done
qed

section \<open>The range of generated codes\<close>

lemma rnd_1000: "rnd 1000 = 1000"
  using rnd_of_int[of 1000] by simp

lemma rnd_below_10000: "rnd (1000 + (9000 - 1 / 2 ^ 39)) = 10000 - 1 / 2 ^ 39"
proof -
  have "rnd (of_int (10000 * 2 ^ 39 - 1) * 2 powi (- 39)) = of_int (10000 * 2 ^ 39 - 1) * 2 powi (- 39)"
    by (rule rnd_exact) simp_all
  moreover have "of_int (10000 * 2 ^ 39 - 1) * 2 powi (- 39) = (10000 - 1 / 2 ^ 39 :: rat)"
    by (simp add: power_int_minus)
  moreover have "(1000 + (9000 - 1 / 2 ^ 39) :: rat) = 10000 - 1 / 2 ^ 39" by simp
  ultimately show ?thesis by simp
qed

lemma random_le:
  assumes "is_random r"
  shows "r \<le> 1 - 1 / 2 ^ 53"
proof (rule ccontr)
  assume "\<not> r \<le> 1 - 1 / 2 ^ 53"
  then have gt: "1 - 1 / 2 ^ 53 < r" by simp
  from assms have lt: "r < 1" and fx: "rnd r = r" by (simp_all add: is_random_def)
  have "1 / 2 < r" using gt by simp
  then have pos: "0 < r" by simp
  have "ilog2 \<bar>r\<bar> = - 1" using \<open>1 / 2 < r\<close> lt by (intro ilog2_unique) (simp_all)
  then have u: "ulp_exp r = - 53" by (simp add: ulp_exp_def)
  define m where "m = round_even (r / 2 powi (- 53))"
  have "rnd r = of_int m * 2 powi (- 53)" using pos by (simp add: rnd_def u m_def)
  then have "r = of_int m * 2 powi (- 53)" by (rule trans[OF fx[symmetric]])
  also have "\<dots> = of_int m / 2 ^ 53" by (simp add: power_int_minus_divide)
  finally have r: "r = of_int m / 2 ^ 53" .
  have "of_int m < (2::rat) ^ 53" using lt by (simp add: r)
  then have "(of_int m :: rat) < of_int (2 ^ 53)" by simp
  then have a: "m < 2 ^ 53" by (simp only: of_int_less_iff)
  have "(2::rat) ^ 53 - 1 < of_int m" using gt by (simp add: r field_simps)
  then have "(of_int (2 ^ 53 - 1) :: rat) < of_int m" by simp
  then have b: "2 ^ 53 - 1 < m" by (simp only: of_int_less_iff)
  from a b show False by simp
qed

lemma generateOtp_range:
  assumes "is_random r"
  shows "1000 \<le> \<lfloor>fadd 1000 (fmul r 9000)\<rfloor>" and "\<lfloor>fadd 1000 (fmul r 9000)\<rfloor> \<le> 9999"
proof -
  from assms have r0: "0 \<le> r" by (simp add: is_random_def)
  have r1: "r * 9000 \<le> (1 - 1 / 2 ^ 53) * 9000" using random_le[OF assms] by simp
  have y0: "0 \<le> fmul r 9000" unfolding fmul_def using r0 by (intro rnd_nonneg) simp
  have "fmul r 9000 \<le> rnd ((1 - 1 / 2 ^ 53) * 9000)"
    unfolding fmul_def using r0 r1 by (intro rnd_mono) simp_all
  then have y1: "fmul r 9000 \<le> 9000 - 1 / 2 ^ 39" by (simp only: rnd_below_9000)
  have "rnd 1000 \<le> fadd 1000 (fmul r 9000)"
    unfolding fadd_def using y0 by (intro rnd_mono) simp_all
  then have lo: "1000 \<le> fadd 1000 (fmul r 9000)" by (simp only: rnd_1000)
  have "fadd 1000 (fmul r 9000) \<le> rnd (1000 + (9000 - 1 / 2 ^ 39))"
    unfolding fadd_def using y0 y1 by (intro rnd_mono) simp_all
  then have hi: "fadd 1000 (fmul r 9000) \<le> 10000 - 1 / 2 ^ 39" by (simp only: rnd_below_10000)
  show "1000 \<le> \<lfloor>fadd 1000 (fmul r 9000)\<rfloor>" using lo by (simp add: le_floor_iff)
  have "fadd 1000 (fmul r 9000) < 10000" using hi by simp
  then have "\<lfloor>fadd 1000 (fmul r 9000)\<rfloor> < 10000" by (simp add: floor_less_iff)
  then show "\<lfloor>fadd 1000 (fmul r 9000)\<rfloor> \<le> 9999" by simp
qed

lemma generateOtp_digits:
  assumes "is_random r"
  obtains n where "1000 \<le> n" "n \<le> 9999" 
    "generateOtp r = [digit_char (n div 1000), digit_char (n div 100 mod 10),
                            digit_char (n div 10 mod 10), digit_char (n mod 10)]"
proof -
  define k where "k = \<lfloor>fadd 1000 (fmul r 9000)\<rfloor>"
  have k: "1000 \<le> k" "k \<le> 9999" using generateOtp_range[OF assms] by (simp_all add: k_def)
  then have n: "1000 \<le> nat k" "nat k \<le> 9999" by simp_all
  have "generateOtp r = nat_to_string (nat k)" using k by (simp add: generateOtp_def int_to_string_def k_def)
  then show ?thesis using that[OF n] nat_to_string_4[OF n] by simp
qed

text \<open>
  C7 (amended). Every access code that \<open>generateOtp\<close> produces from a value of
  \<open>Math.random()\<close> is the decimal numeral of an integer from 1000 to 9999: it has exactly
  four decimal digits, and the first of them is never 0. Codes are not zero-padded.
\<close>

theorem generateOtp_four_digits:
  "is_random r \<Longrightarrow>
     (\<exists>n. 1000 \<le> n \<and> n \<le> 9999 \<and> generateOtp r = nat_to_string n)
     \<and> length (generateOtp r) = 4
     \<and> list_all is_digit (generateOtp r)
     \<and> hd (generateOtp r) \<noteq> CHR ''0''"
proof -
  assume rand: "is_random r"
  obtain n where n: "1000 \<le> n" "n \<le> 9999"
    and g: "generateOtp r = [digit_char (n div 1000), digit_char (n div 100 mod 10),
                             digit_char (n div 10 mod 10), digit_char (n mod 10)]"
    using generateOtp_digits[OF rand] by blast
  have lt: "n div 1000 < 10" and nz: "n div 1000 \<noteq> 0" using n by auto
  have "generateOtp r = nat_to_string n" using g nat_to_string_4[OF n] by simp
  then have "\<exists>n. 1000 \<le> n \<and> n \<le> 9999 \<and> generateOtp r = nat_to_string n" using n by blast
  moreover have "length (generateOtp r) = 4" by (simp add: g)
  moreover have "list_all is_digit (generateOtp r)"
    using lt by (simp add: g digit_char_cases(1))
  moreover have "hd (generateOtp r) \<noteq> CHR ''0''"
    using digit_char_cases(2)[OF lt nz] by (simp add: g)
  ultimately show ?thesis by blast
qed

lemma is_random_0: "is_random 0"
  by (simp add: is_random_def rnd_def)

theorem generateOtp_four_digits_witness:
  "is_random 0 \<and> length (generateOtp 0) = 4 \<and> list_all is_digit (generateOtp 0)
     \<and> hd (generateOtp 0) \<noteq> CHR ''0''"
  using generateOtp_four_digits[of 0] is_random_0 by simp

text \<open>
  C7 as stated asks that some outcome has a leading zero. No value of \<open>Math.random()\<close>
  yields one.
\<close>

theorem generateOtp_leading_zero_counterexample:
  "\<not> (\<exists>r. is_random r \<and> hd (generateOtp r) = CHR ''0'')"
proof
  assume "\<exists>r. is_random r \<and> hd (generateOtp r) = CHR ''0''"
  then obtain r where rand: "is_random r" and z: "hd (generateOtp r) = CHR ''0''" by blast
  obtain n where n: "1000 \<le> n" "n \<le> 9999"
    and g: "generateOtp r = [digit_char (n div 1000), digit_char (n div 100 mod 10),
                             digit_char (n div 10 mod 10), digit_char (n mod 10)]"
    using generateOtp_digits[OF rand] by blast
  have lt: "n div 1000 < 10" and nz: "n div 1000 \<noteq> 0" using n by auto
  from digit_char_cases(2)[OF lt nz] z show False by (simp add: g)
qed

section \<open>Lookups and updates\<close>

lemma find_map_preserve:
  assumes "\<And>x. P (g x) = P x"
  shows "find P (map g xs) = map_option g (find P xs)"
  by (induction xs) (simp_all add: assms)

lemma find_Some_holds: "find P xs = Some x \<Longrightarrow> P x \<and> x \<in> set xs"
  by (induction xs) (auto split: if_splits)

lemma generateOtp_0: "generateOtp 0 = ''1000''"
proof -
  have "fmul 0 9000 = 0" by (simp add: fmul_def rnd_def)
  then have "\<lfloor>fadd 1000 (fmul 0 9000)\<rfloor> = 1000" by (simp add: fadd_def rnd_1000)
  then have "generateOtp 0 = nat_to_string 1000" by (simp add: generateOtp_def int_to_string_def)
  also have "\<dots> = ''1000''" using nat_to_string_4[of 1000] by (simp add: digit_char_def)
  finally show ?thesis .
qed

lemma updateTableRows_found:
  assumes "getTable i db = Some t" "\<And>x. t_id (f x) = t_id x"
  shows "updateTableRows i f db =
           (Some (f t), db\<lparr>tables := map (\<lambda>x. if t_id x = i then f x else x) (tables db)\<rparr>)"
proof -
  have i: "t_id t = i" using find_Some_holds[OF assms(1)[unfolded getTable_def]] by simp
  have "find (\<lambda>t. t_id t = i) (map (\<lambda>x. if t_id x = i then f x else x) (tables db))
          = map_option (\<lambda>x. if t_id x = i then f x else x) (find (\<lambda>t. t_id t = i) (tables db))"
    by (rule find_map_preserve) (simp add: assms(2))
  also have "\<dots> = Some (f t)" using assms(1) i by (simp add: getTable_def)
  finally show ?thesis by (simp add: updateTableRows_def Let_def)
qed

section \<open>Regenerating a code\<close>

text \<open>
  C10. The regenerate route succeeds for an existing table of the caller in any status: no
  vacancy check is made. It rewrites the row's \<open>otp\<close> and \<open>updatedAt\<close> and nothing else:
  \<open>status\<close> and \<open>activeSessionId\<close> of every row stay as they were, so a live session
  survives the rotation of its table's code.
\<close>

theorem regenerate_otp_changes_only_code:
  assumes "getTable i db = Some t" and "t_adminUid t = caller"
  shows "fst (post_tables_regenerate_otp caller i r now db)
           = Inr (Some (t\<lparr>t_otp := generateOtp r, t_updatedAt := now\<rparr>))
       \<and> snd (post_tables_regenerate_otp caller i r now db)
           = db\<lparr>tables := map (\<lambda>x. if t_id x = i
                                     then x\<lparr>t_otp := generateOtp r, t_updatedAt := now\<rparr> else x)
                                (tables db)\<rparr>
       \<and> map t_status (tables (snd (post_tables_regenerate_otp caller i r now db)))
           = map t_status (tables db)
       \<and> map t_activeSessionId (tables (snd (post_tables_regenerate_otp caller i r now db)))
           = map t_activeSessionId (tables db)"
proof -
  have "regenerateTableOtp i r now db =
          (Some (t\<lparr>t_otp := generateOtp r, t_updatedAt := now\<rparr>),
           db\<lparr>tables := map (\<lambda>x. if t_id x = i
                                   then x\<lparr>t_otp := generateOtp r, t_updatedAt := now\<rparr> else x)
                              (tables db)\<rparr>)"
    unfolding regenerateTableOtp_def Let_def by (rule updateTableRows_found[OF assms(1)]) simp
  then have res: "post_tables_regenerate_otp caller i r now db =
          (Inr (Some (t\<lparr>t_otp := generateOtp r, t_updatedAt := now\<rparr>)),
           db\<lparr>tables := map (\<lambda>x. if t_id x = i
                                   then x\<lparr>t_otp := generateOtp r, t_updatedAt := now\<rparr> else x)
                              (tables db)\<rparr>)"
    using assms by (simp add: post_tables_regenerate_otp_def)
  have "map t_status (map (\<lambda>x. if t_id x = i
                                   then x\<lparr>t_otp := generateOtp r, t_updatedAt := now\<rparr> else x)
                              (tables db)) = map t_status (tables db)"
    by (induction "tables db") (simp_all add: comp_def)
  show ?thesis unfolding res by (simp add: comp_def if_distrib cong: if_cong)
qed

theorem regenerate_otp_witness:
  "getTable ''t3'' db_table3 = Some table3 \<and> t_adminUid table3 = ''demo''
   \<and> t_status table3 = ''active''
   \<and> fst (post_tables_regenerate_otp ''demo'' ''t3'' 0 7 db_table3)
        = Inr (Some (table3\<lparr>t_otp := ''1000'', t_updatedAt := 7\<rparr>))
   \<and> map t_status (tables (snd (post_tables_regenerate_otp ''demo'' ''t3'' 0 7 db_table3)))
        = [''active'']"
  using regenerate_otp_changes_only_code[of "''t3''" db_table3 table3 "''demo''" 0 7]
  by (simp add: getTable_def db_table3_def table3_def generateOtp_0)

section \<open>The occupancy invariant\<close>

lemma tables_updateTableRows:
  "tables (snd (updateTableRows i f db)) = map (\<lambda>x. if t_id x = i then f x else x) (tables db)"
  by (simp add: updateTableRows_def Let_def)

lemma inv_updateTableRows:
  assumes "list_all vacant_iff_no_session (tables db)"
    and "\<And>x. vacant_iff_no_session x \<Longrightarrow> vacant_iff_no_session (f x)"
  shows "list_all vacant_iff_no_session (tables (snd (updateTableRows i f db)))"
  using assms by (auto simp: tables_updateTableRows list_all_iff)

lemma inv_createMissingTables:
  assumes "list_all vacant_iff_no_session (tables db)"
  shows "list_all vacant_iff_no_session
           (tables (createMissingTables adminUid count uuid rand now existing db))"
proof -
  have "list_all vacant_iff_no_session (tables d) \<Longrightarrow>
        list_all vacant_iff_no_session (tables (foldl (\<lambda>d i.
           if i \<in> S then d
           else
             let otp = generateOtp (rand i)
             in snd (createTable (uuid i) now
                  \<lparr> it_adminUid = adminUid, it_tableNumber = i, it_status = Some ''vacant'',
                    it_activeSessionId = None, it_otp = Some otp \<rparr> d)) d ns))" for S d ns
    by (induction ns arbitrary: d)
       (simp_all add: createTable_def Let_def vacant_iff_no_session_def)
  then show ?thesis using assms by (simp add: createMissingTables_def Let_def)
qed

lemma list_all_filterI: "list_all P xs \<Longrightarrow> list_all P (filter Q xs)"
  by (simp add: list_all_iff)

lemma inv_delete_excess:
  "list_all vacant_iff_no_session (tables d) \<Longrightarrow>
   list_all vacant_iff_no_session (tables (foldl (\<lambda>d table.
           if t_tableNumber table > newCount
           then d\<lparr>tables := filter (\<lambda>t. t_id t \<noteq> t_id table) (tables d)\<rparr>
           else d) d ts))"
  by (induction ts arbitrary: d) (simp_all add: list_all_filterI)

lemma tables_updateOrders:
  "tables (foldl (\<lambda>d order. snd (updateOrder (o_id order) p now d)) db os) = tables db"
  by (induction os arbitrary: db) (simp_all add: updateOrder_def Let_def)

lemma inv_cancelTable:
  assumes "list_all vacant_iff_no_session (tables db)"
  shows "list_all vacant_iff_no_session (tables (snd (cancelTable i r now db)))"
proof (cases "getTable i db")
  case None
  then show ?thesis using assms by (simp add: cancelTable_def)
next
  case (Some table)
  show ?thesis
    unfolding cancelTable_def Some option.case Let_def
    by (rule inv_updateTableRows)
       (simp_all add: tables_updateOrders assms vacant_iff_no_session_def)
qed

lemma inv_updateTable_active:
  assumes "list_all vacant_iff_no_session (tables db)"
  shows "list_all vacant_iff_no_session
           (tables (snd (updateTable i \<lparr> tp_status = Some ''active'',
                                          tp_activeSessionId = Some (Some sid) \<rparr> now db)))"
  unfolding updateTable_def using assms
  by (rule inv_updateTableRows) (simp add: patchTable_def vacant_iff_no_session_def)

lemma inv_join:
  assumes "list_all vacant_iff_no_session (tables db)"
  shows "list_all vacant_iff_no_session (tables (snd (post_tables_join body suffix now db)))"
  using assms inv_updateTable_active[OF assms]
  by (simp add: post_tables_join_def Let_def split: option.splits)

lemma inv_place:
  assumes "list_all vacant_iff_no_session (tables db)"
  shows "list_all vacant_iff_no_session (tables (snd (post_orders obody newId now db)))"
proof (cases "insertOrderSchema_parse obody")
  case None
  then show ?thesis using assms by (simp add: post_orders_def)
next
  case (Some data)
  obtain order db1 where co: "createOrder newId now data db = (order, db1)"
    by (cases "createOrder newId now data db")
  then have "tables db1 = tables db" by (auto simp: createOrder_def Let_def)
  then have "list_all vacant_iff_no_session (tables db1)" using assms by simp
  then show ?thesis
    using inv_updateTable_active[of db1]
    by (simp add: post_orders_def Some co split: option.splits)
qed

text \<open>
  C4. In every state reached from a database without tables by the operations of the table
  registry (initialize, sync, reset, cancel, regenerate) and by join and order placement, a
  table is \<open>vacant\<close> exactly when its \<open>activeSessionId\<close> is null.
\<close>

theorem occupancy_invariant:
  "reachable db \<Longrightarrow> t \<in> set (tables db)
     \<Longrightarrow> (t_status t = ''vacant'') = (t_activeSessionId t = None)"
proof -
  assume "reachable db"
  then have "list_all vacant_iff_no_session (tables db)"
  proof (induction rule: reachable.induct)
    case (no_tables db)
    then show ?case by simp
  next
    case (initialize db adminUid count uuid rand now)
    then show ?case by (simp add: initializeTables_def inv_createMissingTables)
  next
    case (sync db adminUid newCount uuid rand now)
    then show ?case
      by (simp add: syncTables_def Let_def inv_delete_excess inv_createMissingTables)
  next
    case (reset db i r now)
    then have "list_all vacant_iff_no_session (tables db)" by simp
    then show ?case unfolding resetTable_def Let_def
      by (rule inv_updateTableRows) (simp add: vacant_iff_no_session_def)
  next
    case (cancel db i r now)
    then show ?case by (simp add: inv_cancelTable)
  next
    case (regenerateCode db i r now)
    then have "list_all vacant_iff_no_session (tables db)" by simp
    then show ?case unfolding regenerateTableOtp_def Let_def
      by (rule inv_updateTableRows) (simp add: vacant_iff_no_session_def)
  next
    case (join db body suffix now)
    then show ?case by (simp add: inv_join)
  next
    case (place db obody newId now)
    then show ?case by (simp add: inv_place)
  qed
  moreover assume "t \<in> set (tables db)"
  ultimately show ?thesis by (simp add: list_all_iff vacant_iff_no_session_def)
qed

lemma int_to_string_5: "int_to_string 5 = ''5''"
  by (simp add: int_to_string_def nat_to_string.simps digit_char_def)

lemma tables_db_one_table:
  "tables db_one_table = [\<lparr> t_id = ''t1'', t_adminUid = ''demo'', t_tableNumber = 1, t_status = ''vacant'',
                      t_activeSessionId = None, t_otp = ''1000'',
                      t_createdAt = 0, t_updatedAt = 0 \<rparr>]"
  by (simp add: db_one_table_def db_empty_def initializeTables_def createMissingTables_def
        getTablesByAdminUid_def createTable_def generateOtp_0 upto.simps Let_def)

lemma tables_db_joined: "tables db_joined = [table1_joined]"
  by (simp add: db_joined_def post_tables_join_def getTableByNumber_def tables_db_one_table
        updateTable_def updateTableRows_def patchTable_def int_to_string_5 table1_joined_def Let_def)

theorem occupancy_invariant_witness:
  "reachable db_joined \<and> table1_joined \<in> set (tables db_joined)
     \<and> ((t_status table1_joined = ''vacant'') = (t_activeSessionId table1_joined = None))"
proof -
  have "reachable db_empty" by (rule reachable.no_tables) (simp add: db_empty_def)
  then have "reachable db_one_table" unfolding db_one_table_def by (rule reachable.initialize)
  then have r: "reachable db_joined" unfolding db_joined_def by (rule reachable.join)
  have m: "table1_joined \<in> set (tables db_joined)" by (simp add: tables_db_joined)
  from occupancy_invariant[OF r m] r m show ?thesis by simp
qed

section \<open>Joining a table\<close>

lemma getTableByNumber_updateTableRows:
  assumes "getTableByNumber a n db = Some t"
    and "\<And>x. t_adminUid (f x) = t_adminUid x" "\<And>x. t_tableNumber (f x) = t_tableNumber x"
  shows "getTableByNumber a n (snd (updateTableRows i f db)) = Some (if t_id t = i then f t else t)"
proof -
  have "find (\<lambda>t. t_adminUid t = a \<and> t_tableNumber t = n)
          (map (\<lambda>x. if t_id x = i then f x else x) (tables db))
        = map_option (\<lambda>x. if t_id x = i then f x else x)
            (find (\<lambda>t. t_adminUid t = a \<and> t_tableNumber t = n) (tables db))"
    by (rule find_map_preserve) (simp add: assms(2,3))
  then show ?thesis using assms(1) by (simp add: getTableByNumber_def tables_updateTableRows)
qed

lemma join_existing:
  assumes "getTableByNumber (jb_adminUid body) (jb_tableNumber body) db = Some t"
    and "t_otp t = jb_otp body"
    and "jb_adminUid body \<noteq> []" "jb_tableNumber body \<noteq> 0" "jb_otp body \<noteq> []"
    and "t_status t = ''active''" "t_activeSessionId t = Some sid" "sid \<noteq> []"
  shows "post_tables_join body suffix now db
           = (Inr \<lparr> jr_sessionId = sid, jr_isExistingSession = True,
                     jr_tableNumber = jb_tableNumber body \<rparr>, db)"
proof -
  have "t_tableNumber t = jb_tableNumber body"
    using find_Some_holds[OF assms(1)[unfolded getTableByNumber_def]] by simp
  then show ?thesis using assms by (simp add: post_tables_join_def)
qed

lemma join_twice:
  assumes "post_tables_join body suffix now db = (Inr rep, db1)"
  shows "post_tables_join body suffix' now' db1 = (Inr (rep\<lparr>jr_isExistingSession := True\<rparr>), db1)"
proof -
  let ?a = "jb_adminUid body" and ?n = "jb_tableNumber body" and ?c = "jb_otp body"
  from assms have ne: "?a \<noteq> []" "?n \<noteq> 0" "?c \<noteq> []"
    by (auto simp: post_tables_join_def split: if_splits)
  from assms ne obtain t where t: "getTableByNumber ?a ?n db = Some t"
    by (auto simp: post_tables_join_def split: option.splits)
  from assms ne t have otp: "t_otp t = ?c"
    by (auto simp: post_tables_join_def split: if_splits)
  have num: "t_tableNumber t = ?n"
    using find_Some_holds[OF t[unfolded getTableByNumber_def]] by simp
  show ?thesis
  proof (cases "t_status t = ''active'' \<and> truthy (t_activeSessionId t)")
    case True
    then obtain sid where sid: "t_activeSessionId t = Some sid" "sid \<noteq> []"
      by (cases "t_activeSessionId t") auto
    have first: "post_tables_join body suffix now db
        = (Inr \<lparr> jr_sessionId = sid, jr_isExistingSession = True, jr_tableNumber = ?n \<rparr>, db)"
      using join_existing[OF t otp ne _ sid, of suffix now] True by simp
    with assms have eq: "rep = \<lparr> jr_sessionId = sid, jr_isExistingSession = True, jr_tableNumber = ?n \<rparr>"
      "db1 = db" by simp_all
    have "post_tables_join body suffix' now' db
        = (Inr \<lparr> jr_sessionId = sid, jr_isExistingSession = True, jr_tableNumber = ?n \<rparr>, db)"
      using join_existing[OF t otp ne _ sid, of suffix' now'] True by simp
    then show ?thesis by (simp add: eq)
  next
    case False
    define sid where "sid = ''session-'' @ int_to_string now @ ''-'' @ suffix"
    define p where "p = \<lparr> tp_status = Some ''active'', tp_activeSessionId = Some (Some sid) \<rparr>"
    from assms ne t otp False have eq:
      "rep = \<lparr> jr_sessionId = sid, jr_isExistingSession = False, jr_tableNumber = ?n \<rparr>"
      "db1 = snd (updateTable (t_id t) p now db)"
      by (auto simp: post_tables_join_def Let_def sid_def p_def num)
    have "getTableByNumber ?a ?n db1 = Some (patchTable p now t)"
      unfolding eq updateTable_def
      using getTableByNumber_updateTableRows[OF t, of "patchTable p now" "t_id t"]
      by (simp add: patchTable_def)
    moreover have "t_otp (patchTable p now t) = ?c" by (simp add: patchTable_def otp)
    moreover have "t_status (patchTable p now t) = ''active''" by (simp add: patchTable_def p_def)
    moreover have "t_activeSessionId (patchTable p now t) = Some sid"
      by (simp add: patchTable_def p_def)
    moreover have "sid \<noteq> []" by (simp add: sid_def)
    ultimately have "post_tables_join body suffix' now' db1
        = (Inr \<lparr> jr_sessionId = sid, jr_isExistingSession = True, jr_tableNumber = ?n \<rparr>, db1)"
      using join_existing[of body db1 "patchTable p now t" sid suffix' now'] ne by simp
    then show ?thesis by (simp add: eq(1))
  qed
qed

text \<open>
  C5 (amended). Join is idempotent while a table stays active with the same session: for a
  table in status \<open>active\<close> whose \<open>activeSessionId\<close> is a non-empty string, join with the
  correct code returns that session id with \<open>isExistingSession = true\<close> and leaves the
  database as it is; and when a join call has succeeded, the next join call with the same
  body returns the same session id with \<open>isExistingSession = true\<close> and changes nothing.
\<close>

theorem join_idempotent:
  "(getTableByNumber a n db = Some t \<and> t_otp t = code \<and> a \<noteq> [] \<and> n \<noteq> 0 \<and> code \<noteq> []
      \<and> t_status t = ''active'' \<and> t_activeSessionId t = Some sid \<and> sid \<noteq> []
    \<longrightarrow> post_tables_join \<lparr> jb_adminUid = a, jb_tableNumber = n, jb_otp = code \<rparr> suffix now db
          = (Inr \<lparr> jr_sessionId = sid, jr_isExistingSession = True, jr_tableNumber = n \<rparr>, db))
   \<and> (post_tables_join body suffix1 now1 db0 = (Inr rep, db1)
    \<longrightarrow> post_tables_join body suffix2 now2 db1
          = (Inr (rep\<lparr>jr_isExistingSession := True\<rparr>), db1))"
  using join_existing[of "\<lparr> jb_adminUid = a, jb_tableNumber = n, jb_otp = code \<rparr>" db t sid suffix now]
    join_twice[of body suffix1 now1 db0 rep db1 suffix2 now2]
  by simp

lemma getTableByNumber_db_joined: "getTableByNumber ''demo'' 1 db_joined = Some table1_joined"
  by (simp add: getTableByNumber_def tables_db_joined table1_joined_def)

lemma join_db_one_table:
  "post_tables_join \<lparr> jb_adminUid = ''demo'', jb_tableNumber = 1, jb_otp = ''1000'' \<rparr>
                      ''k3x'' 5 db_one_table
     = (Inr \<lparr> jr_sessionId = ''session-5-k3x'', jr_isExistingSession = False, jr_tableNumber = 1 \<rparr>,
        db_joined)"
  by (simp add: db_joined_def post_tables_join_def getTableByNumber_def tables_db_one_table
        int_to_string_5 Let_def)

theorem join_idempotent_witness:
  "post_tables_join \<lparr> jb_adminUid = ''demo'', jb_tableNumber = 1, jb_otp = ''1000'' \<rparr>
       ''k3x'' 5 db_one_table
     = (Inr \<lparr> jr_sessionId = ''session-5-k3x'', jr_isExistingSession = False, jr_tableNumber = 1 \<rparr>,
        db_joined)
   \<and> post_tables_join \<lparr> jb_adminUid = ''demo'', jb_tableNumber = 1, jb_otp = ''1000'' \<rparr>
       ''q7z'' 9 db_joined
     = (Inr \<lparr> jr_sessionId = ''session-5-k3x'', jr_isExistingSession = True, jr_tableNumber = 1 \<rparr>,
        db_joined)"
proof -
  have a: "getTableByNumber ''demo'' 1 db_joined = Some table1_joined
      \<and> t_otp table1_joined = ''1000'' \<and> ''demo'' \<noteq> [] \<and> (1::int) \<noteq> 0 \<and> ''1000'' \<noteq> []
      \<and> t_status table1_joined = ''active''
      \<and> t_activeSessionId table1_joined = Some ''session-5-k3x'' \<and> ''session-5-k3x'' \<noteq> []"
    by (simp add: getTableByNumber_db_joined) (simp add: table1_joined_def)
  from join_idempotent[where a = "''demo''" and n = 1 and db = db_joined and t = table1_joined
        and code = "''1000''" and sid = "''session-5-k3x''" and suffix = "''q7z''" and now = 9
        and body = "\<lparr> jb_adminUid = ''demo'', jb_tableNumber = 1, jb_otp = ''1000'' \<rparr>"
        and ?suffix1.0 = "''k3x''" and ?now1.0 = 5 and ?db0.0 = db_one_table
        and rep = "\<lparr> jr_sessionId = ''session-5-k3x'', jr_isExistingSession = False,
                     jr_tableNumber = 1 \<rparr>"
        and ?db1.0 = db_joined and ?suffix2.0 = "''q7z''" and ?now2.0 = 9] a join_db_one_table
  show ?thesis by simp
qed

lemma tables_db_blank_session: "tables db_blank_session = [table1_blank]"
  by (simp add: db_blank_session_def post_orders_def insertOrderSchema_parse_def createOrder_def
        getTableByNumber_def tables_db_one_table updateTable_def updateTableRows_def patchTable_def
        table1_blank_def Let_def)

text \<open>
  C5 as stated covers every non-null \<open>activeSessionId\<close>. The handler tests the field for
  truthiness, so an active table whose session id is the empty string (placed there by an
  order with \<open>sessionId = ""\<close>) gets a new session on join.
\<close>

theorem join_blank_session_counterexample:
  "getTableByNumber ''demo'' 1 db_blank_session = Some table1_blank
   \<and> t_otp table1_blank = ''1000''
   \<and> t_status table1_blank = ''active''
   \<and> t_activeSessionId table1_blank \<noteq> None
   \<and> fst (post_tables_join \<lparr> jb_adminUid = ''demo'', jb_tableNumber = 1, jb_otp = ''1000'' \<rparr>
             ''k3x'' 5 db_blank_session)
       = Inr \<lparr> jr_sessionId = ''session-5-k3x'', jr_isExistingSession = False, jr_tableNumber = 1 \<rparr>
   \<and> tables (snd (post_tables_join \<lparr> jb_adminUid = ''demo'', jb_tableNumber = 1, jb_otp = ''1000'' \<rparr>
             ''k3x'' 5 db_blank_session))
       \<noteq> tables db_blank_session"
  by (simp add: post_tables_join_def getTableByNumber_def tables_db_blank_session
        updateTable_def updateTableRows_def patchTable_def int_to_string_5 Let_def)
     (simp add: table1_blank_def)

lemma join_rejects_wrong_code:
  "getTableByNumber a n db = Some t \<Longrightarrow> code \<noteq> t_otp t \<Longrightarrow>
     post_tables_join \<lparr> jb_adminUid = a, jb_tableNumber = n, jb_otp = code \<rparr> suffix now db
       = (Inl (if a = [] \<or> n = 0 \<or> code = [] then BadRequest else Unauthorized), db)"
  by (auto simp: post_tables_join_def)

text \<open>
  C6. For every table that exists and every code presented in a join request (a request
  that names tenant, table number and code) that differs from the code stored with the
  table, join fails with Unauthorized whatever the status of the table, and nothing is
  written: the code is compared before the handler looks at status or session, so a wrong
  code never returns a session id, not even that of an active table.
\<close>

theorem join_wrong_code:
  "getTableByNumber a n db = Some t \<Longrightarrow> a \<noteq> [] \<Longrightarrow> n \<noteq> 0 \<Longrightarrow> code \<noteq> []
     \<Longrightarrow> code \<noteq> t_otp t \<Longrightarrow>
     post_tables_join \<lparr> jb_adminUid = a, jb_tableNumber = n, jb_otp = code \<rparr> suffix now db
       = (Inl Unauthorized, db)"
  using join_rejects_wrong_code[of a n db t code suffix now] by simp

theorem join_wrong_code_witness:
  "getTableByNumber ''demo'' 3 db_table3 = Some table3 \<and> ''0000'' \<noteq> t_otp table3
   \<and> t_status table3 = ''active'' \<and> t_activeSessionId table3 = Some ''session-1-abc''
   \<and> post_tables_join \<lparr> jb_adminUid = ''demo'', jb_tableNumber = 3, jb_otp = ''0000'' \<rparr>
         ''k3x'' 5 db_table3
       = (Inl Unauthorized, db_table3)
   \<and> post_tables_join \<lparr> jb_adminUid = ''demo'', jb_tableNumber = 1, jb_otp = ''4821'' \<rparr>
         ''k3x'' 5 db_one_table
       = (Inl Unauthorized, db_one_table)"
proof -
  have a: "getTableByNumber ''demo'' 3 db_table3 = Some table3"
    by (simp add: getTableByNumber_def db_table3_def table3_def)
  have b: "''0000'' \<noteq> t_otp table3" by (simp add: table3_def)
  have c: "getTableByNumber ''demo'' 1 db_one_table
     = Some \<lparr> t_id = ''t1'', t_adminUid = ''demo'', t_tableNumber = 1, t_status = ''vacant'',
              t_activeSessionId = None, t_otp = ''1000'', t_createdAt = 0, t_updatedAt = 0 \<rparr>"
    by (simp add: getTableByNumber_def tables_db_one_table)
  from join_wrong_code[OF a _ _ _ b, of "''k3x''" 5]
    join_wrong_code[OF c, of "''4821''" "''k3x''" 5] a b
  show ?thesis by (simp add: table3_def)
qed

section \<open>Updating the orders of a table or a session\<close>

lemma set_orderByDesc: "set (orderByDesc key xs) = set xs"
  by (simp add: orderByDesc_def)

lemma orders_updateOrders:
  assumes "op_items p = None" "op_orderStatus p = Some st"
  shows "orders (foldl (\<lambda>d order. snd (updateOrder (o_id order) p now d)) db ys)
           = map (\<lambda>x. if o_id x \<in> o_id ` set ys then x\<lparr>o_orderStatus := st, o_updatedAt := now\<rparr> else x)
               (orders db)"
proof (induction ys arbitrary: db)
  case Nil
  then show ?case by simp
next
  case (Cons y ys)
  have step: "orders (snd (updateOrder (o_id y) p now db))
      = map (\<lambda>x. if o_id x = o_id y then x\<lparr>o_orderStatus := st, o_updatedAt := now\<rparr> else x) (orders db)"
    by (simp add: updateOrder_def patchOrder_def assms Let_def)
  show ?case
    by (simp add: Cons.IH step comp_def)
qed

lemma rest_updateOrders:
  "bills (foldl (\<lambda>d order. snd (updateOrder (o_id order) p now d)) db ys) = bills db"
  "salesHistory (foldl (\<lambda>d order. snd (updateOrder (o_id order) p now d)) db ys) = salesHistory db"
  by (induction ys arbitrary: db) (simp_all add: updateOrder_def Let_def)

lemma key_in_selected:
  assumes "distinct (map key xs)" "x \<in> set xs"
  shows "(key x \<in> key ` {y \<in> set xs. Q y}) = Q x"
proof
  assume "key x \<in> key ` {y \<in> set xs. Q y}"
  then obtain y where y: "y \<in> set xs" "Q y" "key x = key y" by auto
  have "inj_on key (set xs)" using assms(1) by (simp add: distinct_map)
  then have "x = y" using y(1,3) assms(2) by (auto dest: inj_onD)
  then show "Q x" using y(2) by simp
next
  assume "Q x"
  then show "key x \<in> key ` {y \<in> set xs. Q y}" using assms(2) by auto
qed

lemma orders_updateSelected:
  assumes "op_items p = None" "op_orderStatus p = Some st"
    and "distinct (map o_id (orders db))"
    and "set ys = {y \<in> set (orders db). Q y}"
  shows "orders (foldl (\<lambda>d order. snd (updateOrder (o_id order) p now d)) db ys)
           = map (\<lambda>x. if Q x then x\<lparr>o_orderStatus := st, o_updatedAt := now\<rparr> else x) (orders db)"
  unfolding orders_updateOrders[OF assms(1,2)] assms(4)
  by (rule map_cong) (simp_all add: key_in_selected[OF assms(3)])

section \<open>Cancelling a table\<close>

lemma cancel_effect:
  assumes "getTable i db = Some t" and "t_adminUid t = caller" and "t_status t \<noteq> ''vacant''"
    and "distinct (map o_id (orders db))"
  shows "fst (post_tables_cancel caller i r now db)
           = Inr (Some (t\<lparr>t_status := ''vacant'', t_activeSessionId := None,
                           t_otp := generateOtp r, t_updatedAt := now\<rparr>))
       \<and> orders (snd (post_tables_cancel caller i r now db))
           = map (\<lambda>x. if o_adminUid x = t_adminUid t \<and> o_tableNumber x = t_tableNumber t
                           \<and> o_orderStatus x = ''active''
                        then x\<lparr>o_orderStatus := ''cancelled'', o_updatedAt := now\<rparr> else x)
               (orders db)
       \<and> tables (snd (post_tables_cancel caller i r now db))
           = map (\<lambda>x. if t_id x = i
                        then x\<lparr>t_status := ''vacant'', t_activeSessionId := None,
                                t_otp := generateOtp r, t_updatedAt := now\<rparr>
                        else x)
               (tables db)"
proof -
  let ?p = "\<lparr> op_items = None, op_orderStatus = Some ''cancelled'' \<rparr>"
  let ?ys = "getActiveOrdersByTableNumber (t_adminUid t) (t_tableNumber t) db"
  let ?db1 = "foldl (\<lambda>d order. snd (updateOrder (o_id order) ?p now d)) db ?ys"
  let ?f = "\<lambda>t. t\<lparr>t_status := ''vacant'', t_activeSessionId := None,
                    t_otp := generateOtp r, t_updatedAt := now\<rparr>"
  have ys: "set ?ys = {y \<in> set (orders db). o_adminUid y = t_adminUid t
                \<and> o_tableNumber y = t_tableNumber t \<and> o_orderStatus y = ''active''}"
    by (auto simp: getActiveOrdersByTableNumber_def set_orderByDesc)
  have o1: "orders ?db1 = map (\<lambda>x. if o_adminUid x = t_adminUid t \<and> o_tableNumber x = t_tableNumber t
                           \<and> o_orderStatus x = ''active''
                        then x\<lparr>o_orderStatus := ''cancelled'', o_updatedAt := now\<rparr> else x)
               (orders db)"
    by (rule orders_updateSelected[OF _ _ assms(4) ys]) simp_all
  have g1: "getTable i ?db1 = Some t" using assms(1) by (simp add: getTable_def tables_updateOrders)
  have c: "cancelTable i r now db = updateTableRows i ?f ?db1"
    by (simp add: cancelTable_def assms(1) Let_def)
  have u: "updateTableRows i ?f ?db1
      = (Some (?f t), ?db1\<lparr>tables := map (\<lambda>x. if t_id x = i then ?f x else x) (tables ?db1)\<rparr>)"
    by (rule updateTableRows_found[OF g1]) simp
  have "post_tables_cancel (t_adminUid t) i r now db
      = (Inr (Some (?f t)), ?db1\<lparr>tables := map (\<lambda>x. if t_id x = i then ?f x else x) (tables ?db1)\<rparr>)"
    using assms(1,3) by (simp add: post_tables_cancel_def c u)
  then show ?thesis unfolding assms(2)[symmetric] by (simp add: o1 tables_updateOrders)
qed

lemma demo_facts:
  "getTable ''t3'' db_demo = Some table3" "getTable ''t5'' db_demo = Some table5"
  "getBill ''b1'' db_demo = Some bill1"
  "getTableByNumber ''demo'' 3 db_demo = Some table3"
  "distinct (map o_id (orders db_demo))"
  "orders db_demo = [order1, order2, order3]" "tables db_demo = [table3, table5]"
  "salesHistory db_demo = []" "bills db_demo = [bill1]"
  by (simp_all add: db_demo_def getTable_def getBill_def getTableByNumber_def table3_def table5_def
        bill1_def order1_def order2_def order3_def)

text \<open>
  C9 (amended). Cancelling a non-vacant table of the caller turns exactly the orders of that
  table that are \<open>active\<close> into \<open>cancelled\<close> and leaves every other order as it is; the
  table becomes vacant, its session is cleared, and its code is a freshly generated one
  (which is drawn independently of the old code).
\<close>

theorem cancel_table:
  assumes "getTable i db = Some t" and "t_adminUid t = caller" and "t_status t \<noteq> ''vacant''"
    and "distinct (map o_id (orders db))"
  shows "fst (post_tables_cancel caller i r now db)
           = Inr (Some (t\<lparr>t_status := ''vacant'', t_activeSessionId := None,
                           t_otp := generateOtp r, t_updatedAt := now\<rparr>))
       \<and> orders (snd (post_tables_cancel caller i r now db))
           = map (\<lambda>x. if o_adminUid x = t_adminUid t \<and> o_tableNumber x = t_tableNumber t
                           \<and> o_orderStatus x = ''active''
                        then x\<lparr>o_orderStatus := ''cancelled'', o_updatedAt := now\<rparr> else x)
               (orders db)
       \<and> tables (snd (post_tables_cancel caller i r now db))
           = map (\<lambda>x. if t_id x = i
                        then x\<lparr>t_status := ''vacant'', t_activeSessionId := None,
                                t_otp := generateOtp r, t_updatedAt := now\<rparr>
                        else x)
               (tables db)"
  using assms by (rule cancel_effect)

theorem cancel_table_witness:
  "getTable ''t3'' db_demo = Some table3 \<and> t_adminUid table3 = ''demo''
   \<and> t_status table3 \<noteq> ''vacant'' \<and> distinct (map o_id (orders db_demo))
   \<and> orders (snd (post_tables_cancel ''demo'' ''t3'' 0 20 db_demo))
       = [order1\<lparr>o_orderStatus := ''cancelled'', o_updatedAt := 20\<rparr>, order2, order3]
   \<and> tables (snd (post_tables_cancel ''demo'' ''t3'' 0 20 db_demo))
       = [table3\<lparr>t_status := ''vacant'', t_activeSessionId := None, t_otp := ''1000'',
                  t_updatedAt := 20\<rparr>, table5]"
proof -
  have h: "t_adminUid table3 = ''demo''" "t_status table3 \<noteq> ''vacant''"
    by (simp_all add: table3_def)
  from cancel_table[OF demo_facts(1) h demo_facts(5), of 0 20] h demo_facts(1,5)
  show ?thesis
    by (simp add: demo_facts(6,7) generateOtp_0)
       (simp add: table3_def table5_def order1_def order2_def order3_def)
qed

text \<open>
  C9 as stated asks for a code different from the one before. The new code is drawn
  without looking at the old one: with the random value 0 table 5, whose code is 1000,
  gets the code 1000 again.
\<close>

theorem cancel_same_code_counterexample:
  "is_random 0 \<and> getTable ''t5'' db_demo = Some table5 \<and> t_status table5 \<noteq> ''vacant''
   \<and> t_otp table5 = ''1000''
   \<and> fst (post_tables_cancel ''demo'' ''t5'' 0 20 db_demo)
       = Inr (Some (table5\<lparr>t_status := ''vacant'', t_activeSessionId := None,
                            t_otp := ''1000'', t_updatedAt := 20\<rparr>))"
proof -
  have h: "t_adminUid table5 = ''demo''" "t_status table5 \<noteq> ''vacant''" "t_otp table5 = ''1000''"
    by (simp_all add: table5_def)
  from cancel_effect[OF demo_facts(2) h(1,2) demo_facts(5), of 0 20] h demo_facts(2) is_random_0
  show ?thesis by (simp add: generateOtp_0)
qed

section \<open>Finalizing a bill\<close>

lemma finalize_steps:
  "tables (markFinal bill db) = tables db" "orders (markFinal bill db) = orders db"
  "salesHistory (markFinal bill db) = salesHistory db"
  "bills (markFinal bill db) = map (\<lambda>b. if b_id b = b_id bill then b\<lparr>b_isFinal := True\<rparr> else b) (bills db)"
  "tables (archiveSale bill newId now db) = tables db" "orders (archiveSale bill newId now db) = orders db"
  "bills (archiveSale bill newId now db) = bills db"
  "salesHistory (archiveSale bill newId now db)
     = salesHistory db @
       [\<lparr> s_id = newId, s_adminUid = b_adminUid bill, s_billId = b_id bill,
          s_tableNumber = b_tableNumber bill, s_totalAmount = b_totalAmount bill,
          s_itemsSold = map (\<lambda>item. \<lparr> si_name = bi_name item, si_quantity = bi_quantity item,
                                        si_price = bi_price item \<rparr>) (b_items bill),
          s_createdAt = now \<rparr>]"
  "tables (completeSessionOrders bill now db) = tables db"
  "bills (completeSessionOrders bill now db) = bills db"
  "salesHistory (completeSessionOrders bill now db) = salesHistory db"
  "orders (resetBillTable bill r now db) = orders db"
  "bills (resetBillTable bill r now db) = bills db"
  "salesHistory (resetBillTable bill r now db) = salesHistory db"
  "tables (resetBillTable bill r now db)
     = (case getTableByNumber (b_adminUid bill) (b_tableNumber bill) db of
          None \<Rightarrow> tables db
        | Some table \<Rightarrow>
            map (\<lambda>x. if t_id x = t_id table
                      then x\<lparr>t_status := ''vacant'', t_activeSessionId := None,
                              t_otp := generateOtp r, t_updatedAt := now\<rparr>
                      else x) (tables db))"
  by (simp_all add: markFinal_def updateBill_def archiveSale_def createSalesHistory_def
        completeSessionOrders_def tables_updateOrders rest_updateOrders resetBillTable_def
        resetTable_def updateTableRows_def Let_def split: option.splits)

lemma orders_completeSessionOrders:
  assumes "distinct (map o_id (orders db))"
  shows "orders (completeSessionOrders bill now db)
           = map (\<lambda>x. if o_sessionId x = b_sessionId bill
                        then x\<lparr>o_orderStatus := ''completed'', o_updatedAt := now\<rparr> else x)
               (orders db)"
  unfolding completeSessionOrders_def Let_def
  by (rule orders_updateSelected[OF _ _ assms])
     (auto simp: getOrdersBySessionId_def set_orderByDesc)

lemma finalize_result:
  assumes "getBill i db = Some bill" and "b_adminUid bill = caller"
  shows "post_bills_finalize caller i newId r now db
      = (Inr bill, resetBillTable bill r now
           (completeSessionOrders bill now (archiveSale bill newId now (markFinal bill db))))"
  using assms by (simp add: post_bills_finalize_def Let_def)

lemma getBill_id: "getBill i db = Some bill \<Longrightarrow> b_id bill = i"
  using find_Some_holds[of "\<lambda>b. b_id b = i" "bills db" bill] by (simp add: getBill_def)

lemma finalize_sales:
  assumes "getBill i db = Some bill" and "b_adminUid bill = caller"
  shows "salesHistory (snd (post_bills_finalize caller i newId r now db))
           = salesHistory db @
             [\<lparr> s_id = newId, s_adminUid = b_adminUid bill, s_billId = i,
                s_tableNumber = b_tableNumber bill, s_totalAmount = b_totalAmount bill,
                s_itemsSold = map (\<lambda>item. \<lparr> si_name = bi_name item,
                                              si_quantity = bi_quantity item,
                                              si_price = bi_price item \<rparr>) (b_items bill),
                s_createdAt = now \<rparr>]"
  by (simp add: finalize_result[OF assms] finalize_steps getBill_id[OF assms(1)])

lemma finalize_getBill:
  assumes "getBill i db = Some bill" and "b_adminUid bill = caller"
  shows "getBill i (snd (post_bills_finalize caller i newId r now db)) = Some (bill\<lparr>b_isFinal := True\<rparr>)"
proof -
  have "find (\<lambda>b. b_id b = i) (map (\<lambda>b. if b_id b = i then b\<lparr>b_isFinal := True\<rparr> else b) (bills db))
      = map_option (\<lambda>b. if b_id b = i then b\<lparr>b_isFinal := True\<rparr> else b) (find (\<lambda>b. b_id b = i) (bills db))"
    by (rule find_map_preserve) simp
  then show ?thesis
    using assms(1) by (simp add: finalize_result[OF assms] getBill_def finalize_steps getBill_id[OF assms(1)])
qed

text \<open>
  C3. For an existing bill of the caller, final or not, one finalize call makes four writes
  in this order: the bill is marked final; one sales history record is appended, carrying
  the bill's total amount and its items by name, quantity and price; every order with the
  bill's session id is set to \<open>completed\<close>; the bill's table (when it exists) is reset to
  vacant without session and with a freshly generated code.
\<close>

theorem finalize_bill:
  assumes "getBill i db = Some bill" and "b_adminUid bill = caller"
    and "distinct (map o_id (orders db))"
  shows "fst (post_bills_finalize caller i newId r now db) = Inr bill
       \<and> snd (post_bills_finalize caller i newId r now db)
           = resetBillTable bill r now
               (completeSessionOrders bill now (archiveSale bill newId now (markFinal bill db)))
       \<and> bills (snd (post_bills_finalize caller i newId r now db))
           = map (\<lambda>b. if b_id b = i then b\<lparr>b_isFinal := True\<rparr> else b) (bills db)
       \<and> salesHistory (snd (post_bills_finalize caller i newId r now db))
           = salesHistory db @
             [\<lparr> s_id = newId, s_adminUid = b_adminUid bill, s_billId = i,
                s_tableNumber = b_tableNumber bill, s_totalAmount = b_totalAmount bill,
                s_itemsSold = map (\<lambda>item. \<lparr> si_name = bi_name item,
                                              si_quantity = bi_quantity item,
                                              si_price = bi_price item \<rparr>) (b_items bill),
                s_createdAt = now \<rparr>]
       \<and> orders (snd (post_bills_finalize caller i newId r now db))
           = map (\<lambda>x. if o_sessionId x = b_sessionId bill
                        then x\<lparr>o_orderStatus := ''completed'', o_updatedAt := now\<rparr> else x)
               (orders db)
       \<and> tables (snd (post_bills_finalize caller i newId r now db))
           = (case getTableByNumber (b_adminUid bill) (b_tableNumber bill) db of
                None \<Rightarrow> tables db
              | Some table \<Rightarrow>
                  map (\<lambda>x. if t_id x = t_id table
                            then x\<lparr>t_status := ''vacant'', t_activeSessionId := None,
                                    t_otp := generateOtp r, t_updatedAt := now\<rparr>
                            else x) (tables db))"
proof -
  note res = finalize_result[OF assms(1,2), of newId r now] and i = getBill_id[OF assms(1)]
  let ?db2 = "archiveSale bill newId now (markFinal bill db)"
  have d2: "distinct (map o_id (orders ?db2))" using assms(3) by (simp add: finalize_steps)
  have g: "getTableByNumber (b_adminUid bill) (b_tableNumber bill) (completeSessionOrders bill now ?db2)
      = getTableByNumber (b_adminUid bill) (b_tableNumber bill) db"
    by (simp add: getTableByNumber_def finalize_steps)
  show ?thesis
    unfolding res
    by (simp add: finalize_steps g orders_completeSessionOrders[OF d2] i cong: option.case_cong)
qed

theorem finalize_bill_witness:
  "getBill ''b1'' db_demo = Some bill1 \<and> b_adminUid bill1 = ''demo''
   \<and> distinct (map o_id (orders db_demo))
   \<and> fst (post_bills_finalize ''demo'' ''b1'' ''s1'' 0 20 db_demo) = Inr bill1
   \<and> bills (snd (post_bills_finalize ''demo'' ''b1'' ''s1'' 0 20 db_demo))
       = [bill1\<lparr>b_isFinal := True\<rparr>]
   \<and> salesHistory (snd (post_bills_finalize ''demo'' ''b1'' ''s1'' 0 20 db_demo)) = [sale1]
   \<and> orders (snd (post_bills_finalize ''demo'' ''b1'' ''s1'' 0 20 db_demo))
       = [order1\<lparr>o_orderStatus := ''completed'', o_updatedAt := 20\<rparr>, order2, order3]
   \<and> tables (snd (post_bills_finalize ''demo'' ''b1'' ''s1'' 0 20 db_demo))
       = [table3\<lparr>t_status := ''vacant'', t_activeSessionId := None, t_otp := ''1000'',
                  t_updatedAt := 20\<rparr>, table5]"
proof -
  have h: "b_adminUid bill1 = ''demo''" by (simp add: bill1_def)
  have g: "getTableByNumber (b_adminUid bill1) (b_tableNumber bill1) db_demo = Some table3"
    using demo_facts(4) by (simp add: bill1_def)
  note f = finalize_bill[OF demo_facts(3) h demo_facts(5), of "''s1''" 0 20]
  have "bills (snd (post_bills_finalize ''demo'' ''b1'' ''s1'' 0 20 db_demo))
       = [bill1\<lparr>b_isFinal := True\<rparr>]"
    using f[THEN conjunct2, THEN conjunct2, THEN conjunct1]
    by (simp add: demo_facts(9)) (simp add: bill1_def)
  moreover have "salesHistory (snd (post_bills_finalize ''demo'' ''b1'' ''s1'' 0 20 db_demo)) = [sale1]"
    using f[THEN conjunct2, THEN conjunct2, THEN conjunct2, THEN conjunct1]
    by (simp add: demo_facts(8)) (simp add: bill1_def sale1_def)
  moreover have "orders (snd (post_bills_finalize ''demo'' ''b1'' ''s1'' 0 20 db_demo))
       = [order1\<lparr>o_orderStatus := ''completed'', o_updatedAt := 20\<rparr>, order2, order3]"
    using f[THEN conjunct2, THEN conjunct2, THEN conjunct2, THEN conjunct2, THEN conjunct1]
    by (simp add: demo_facts(6)) (simp add: bill1_def order1_def order2_def order3_def)
  moreover have "tables (snd (post_bills_finalize ''demo'' ''b1'' ''s1'' 0 20 db_demo))
       = [table3\<lparr>t_status := ''vacant'', t_activeSessionId := None, t_otp := ''1000'',
                  t_updatedAt := 20\<rparr>, table5]"
    using f[THEN conjunct2, THEN conjunct2, THEN conjunct2, THEN conjunct2, THEN conjunct2]
    by (simp add: demo_facts(7) g generateOtp_0) (simp add: table3_def table5_def)
  ultimately show ?thesis using f[THEN conjunct1] h demo_facts(3,5) by simp
qed

text \<open>
  C1 (amended). The finalize route never reads \<open>isFinal\<close>: it accepts every existing bill
  of the caller, final or not, and each call appends exactly one sales history record for
  that bill and leaves the bill final. So a draft bill without a record has exactly one
  record after its first finalize call, and the call is accepted again afterwards.
\<close>

theorem finalize_appends_one_sale:
  assumes "getBill i db = Some bill" and "b_adminUid bill = caller"
  shows "fst (post_bills_finalize caller i newId r now db) = Inr bill
       \<and> length (salesHistoryOfBill i (snd (post_bills_finalize caller i newId r now db)))
           = length (salesHistoryOfBill i db) + 1
       \<and> getBill i (snd (post_bills_finalize caller i newId r now db))
           = Some (bill\<lparr>b_isFinal := True\<rparr>)"
  using finalize_result[OF assms, of newId r now] finalize_sales[OF assms, of newId r now]
    finalize_getBill[OF assms, of newId r now]
  by (simp add: salesHistoryOfBill_def)

theorem finalize_appends_one_sale_witness:
  "getBill ''b1'' db_demo = Some bill1 \<and> b_adminUid bill1 = ''demo''
   \<and> length (salesHistoryOfBill ''b1'' db_demo) = 0
   \<and> length (salesHistoryOfBill ''b1''
               (snd (post_bills_finalize ''demo'' ''b1'' ''s1'' 0 20 db_demo))) = 1"
proof -
  have h: "b_adminUid bill1 = ''demo''" by (simp add: bill1_def)
  have z: "length (salesHistoryOfBill ''b1'' db_demo) = 0"
    by (simp add: salesHistoryOfBill_def demo_facts)
  from finalize_appends_one_sale[OF demo_facts(3) h, of "''s1''" 0 20] h demo_facts(3) z
  show ?thesis by simp
qed

text \<open>
  C1 as stated asks that a second finalize call on the same bill is a no-op or an error
  and leaves one record. The second call succeeds and writes a second record.
\<close>

theorem finalize_twice_counterexample:
  "getBill ''b1'' db_demo = Some bill1 \<and> \<not> b_isFinal bill1
   \<and> length (salesHistoryOfBill ''b1'' db_demo) = 0
   \<and> fst (post_bills_finalize ''demo'' ''b1'' ''s1'' 0 20 db_demo) = Inr bill1
   \<and> getBill ''b1'' db_finalized = Some (bill1\<lparr>b_isFinal := True\<rparr>)
   \<and> fst (post_bills_finalize ''demo'' ''b1'' ''s2'' 0 30 db_finalized)
       = Inr (bill1\<lparr>b_isFinal := True\<rparr>)
   \<and> length (salesHistoryOfBill ''b1''
               (snd (post_bills_finalize ''demo'' ''b1'' ''s2'' 0 30 db_finalized))) = 2"
proof -
  have h: "b_adminUid bill1 = ''demo''" "\<not> b_isFinal bill1" by (simp_all add: bill1_def)
  have h': "b_adminUid (bill1\<lparr>b_isFinal := True\<rparr>) = ''demo''" by (simp add: bill1_def)
  have z: "length (salesHistoryOfBill ''b1'' db_demo) = 0"
    by (simp add: salesHistoryOfBill_def demo_facts)
  have g1: "getBill ''b1'' db_finalized = Some (bill1\<lparr>b_isFinal := True\<rparr>)"
    unfolding db_finalized_def by (rule finalize_getBill[OF demo_facts(3) h(1)])
  have s1: "length (salesHistoryOfBill ''b1'' db_finalized) = 1"
    unfolding db_finalized_def
    by (simp add: salesHistoryOfBill_def finalize_sales[OF demo_facts(3) h(1)] demo_facts)
  have s2: "length (salesHistoryOfBill ''b1''
               (snd (post_bills_finalize ''demo'' ''b1'' ''s2'' 0 30 db_finalized))) = 2"
    using s1 by (simp add: salesHistoryOfBill_def finalize_sales[OF g1 h'])
  show ?thesis
    using h z g1 s2 demo_facts(3) finalize_result[OF demo_facts(3) h(1), of "''s1''" 0 20]
      finalize_result[OF g1 h', of "''s2''" 0 30]
    by simp
qed

section \<open>Placing an order\<close>

lemma place_effect:
  assumes "ob_adminUid body = Some a" and "ob_sessionId body = Some s"
    and "ob_tableNumber body = Some n" and "ob_items body = Some xs"
  shows "fst (post_orders body newId now db)
           = Inr \<lparr> o_id = newId, o_adminUid = a, o_sessionId = s, o_tableNumber = n, o_items = xs,
                   o_orderStatus = (case ob_orderStatus body of None \<Rightarrow> ''active'' | Some st \<Rightarrow> st),
                   o_createdAt = now, o_updatedAt = now \<rparr>
       \<and> orders (snd (post_orders body newId now db))
           = orders db @
             [\<lparr> o_id = newId, o_adminUid = a, o_sessionId = s, o_tableNumber = n, o_items = xs,
                o_orderStatus = (case ob_orderStatus body of None \<Rightarrow> ''active'' | Some st \<Rightarrow> st),
                o_createdAt = now, o_updatedAt = now \<rparr>]
       \<and> tables (snd (post_orders body newId now db))
           = (case getTableByNumber a n db of
                None \<Rightarrow> tables db
              | Some table \<Rightarrow>
                  map (\<lambda>x. if t_id x = t_id table
                            then x\<lparr>t_status := ''active'', t_activeSessionId := Some s,
                                    t_updatedAt := now\<rparr>
                            else x) (tables db))"
  using assms
  by (simp add: post_orders_def insertOrderSchema_parse_def createOrder_def getTableByNumber_def
        updateTable_def updateTableRows_def patchTable_def Let_def split: option.splits)

text \<open>
  C8 (amended). A request that carries tenant, session id, table number and an item list
  is accepted whatever the list holds, the empty list included. Exactly one order is
  appended: it stores the items as they were sent (their initial status \<open>pending\<close> is the
  client's doing), and its \<open>orderStatus\<close> is the one sent, or \<open>active\<close> when none was sent.
  The table with the order's tenant and number, when there is one, becomes \<open>active\<close> with
  \<open>activeSessionId\<close> equal to the session id of the request.
\<close>

theorem place_order:
  assumes "ob_adminUid body = Some a" and "ob_sessionId body = Some s"
    and "ob_tableNumber body = Some n" and "ob_items body = Some xs"
  shows "fst (post_orders body newId now db)
           = Inr \<lparr> o_id = newId, o_adminUid = a, o_sessionId = s, o_tableNumber = n, o_items = xs,
                   o_orderStatus = (case ob_orderStatus body of None \<Rightarrow> ''active'' | Some st \<Rightarrow> st),
                   o_createdAt = now, o_updatedAt = now \<rparr>
       \<and> orders (snd (post_orders body newId now db))
           = orders db @
             [\<lparr> o_id = newId, o_adminUid = a, o_sessionId = s, o_tableNumber = n, o_items = xs,
                o_orderStatus = (case ob_orderStatus body of None \<Rightarrow> ''active'' | Some st \<Rightarrow> st),
                o_createdAt = now, o_updatedAt = now \<rparr>]
       \<and> tables (snd (post_orders body newId now db))
           = (case getTableByNumber a n db of
                None \<Rightarrow> tables db
              | Some table \<Rightarrow>
                  map (\<lambda>x. if t_id x = t_id table
                            then x\<lparr>t_status := ''active'', t_activeSessionId := Some s,
                                    t_updatedAt := now\<rparr>
                            else x) (tables db))"
  using assms by (rule place_effect)

lemma getTableByNumber_db_one_table:
  "getTableByNumber ''demo'' 1 db_one_table
     = Some \<lparr> t_id = ''t1'', t_adminUid = ''demo'', t_tableNumber = 1, t_status = ''vacant'',
              t_activeSessionId = None, t_otp = ''1000'', t_createdAt = 0, t_updatedAt = 0 \<rparr>"
  by (simp add: getTableByNumber_def tables_db_one_table)

theorem place_order_witness:
  "ob_adminUid order_two_A = Some ''demo'' \<and> ob_sessionId order_two_A = Some ''session-9-new''
   \<and> ob_tableNumber order_two_A = Some 1
   \<and> ob_items order_two_A
       = Some [\<lparr> oi_menuItemId = ''mA'', oi_name = ''A'', oi_price = ''120.00'',
                 oi_quantity = Fin 2, oi_status = ''pending'' \<rparr>]
   \<and> orders (snd (post_orders order_two_A ''o1'' 9 db_one_table))
       = [\<lparr> o_id = ''o1'', o_adminUid = ''demo'', o_sessionId = ''session-9-new'', o_tableNumber = 1,
            o_items = [\<lparr> oi_menuItemId = ''mA'', oi_name = ''A'', oi_price = ''120.00'',
                         oi_quantity = Fin 2, oi_status = ''pending'' \<rparr>],
            o_orderStatus = ''active'', o_createdAt = 9, o_updatedAt = 9 \<rparr>]
   \<and> tables (snd (post_orders order_two_A ''o1'' 9 db_one_table))
       = [\<lparr> t_id = ''t1'', t_adminUid = ''demo'', t_tableNumber = 1, t_status = ''active'',
            t_activeSessionId = Some ''session-9-new'', t_otp = ''1000'',
            t_createdAt = 0, t_updatedAt = 9 \<rparr>]"
proof -
  have h: "ob_adminUid order_two_A = Some ''demo''" "ob_sessionId order_two_A = Some ''session-9-new''"
    "ob_tableNumber order_two_A = Some 1"
    "ob_items order_two_A
       = Some [\<lparr> oi_menuItemId = ''mA'', oi_name = ''A'', oi_price = ''120.00'',
                 oi_quantity = Fin 2, oi_status = ''pending'' \<rparr>]"
    "ob_orderStatus order_two_A = Some ''active''"
    by (simp_all add: order_two_A_def)
  have o: "orders db_one_table = []"
    by (simp add: db_one_table_def db_empty_def initializeTables_def createMissingTables_def
        getTablesByAdminUid_def createTable_def upto.simps Let_def)
  note f = place_order[OF h(1-4), of "''o1''" 9 db_one_table]
  from f[THEN conjunct2, THEN conjunct1] f[THEN conjunct2, THEN conjunct2] h(1-4)
  show ?thesis
    by (simp add: h(5) o getTableByNumber_db_one_table tables_db_one_table)
qed

text \<open>
  C8 as stated has requests without items rejected. The schema derived from the columns
  does not look into \<open>items\<close>, and the handler adds no check: the empty order is stored.
\<close>

theorem place_empty_order_counterexample:
  "ob_items order_empty_items = Some []
   \<and> fst (post_orders order_empty_items ''o1'' 6 db_joined)
       = Inr \<lparr> o_id = ''o1'', o_adminUid = ''demo'', o_sessionId = ''session-5-k3x'',
               o_tableNumber = 1, o_items = [], o_orderStatus = ''active'',
               o_createdAt = 6, o_updatedAt = 6 \<rparr>"
proof -
  have h: "ob_adminUid order_empty_items = Some ''demo''"
    "ob_sessionId order_empty_items = Some ''session-5-k3x''"
    "ob_tableNumber order_empty_items = Some 1" "ob_items order_empty_items = Some []"
    "ob_orderStatus order_empty_items = None"
    by (simp_all add: order_empty_items_def)
  from place_effect[OF h(1-4), of "''o1''" 6 db_joined, THEN conjunct1] h(4)
  show ?thesis by (simp add: h(5))
qed

section \<open>The amounts of a bill\<close>





























end
